theory Spec2Isabelle
  imports Complex_Main
begin

section \<open>The fragment shader (shaders/fragment.glsl)\<close>

text \<open>
  The shader's \<open>float\<close> is modelled by \<^typ>\<open>real\<close>: the development is about the
  branch structure and the algebra of the shader, not about rounding. Where GLSL leaves
  a result undefined (division by zero, \<open>normalize\<close> of the zero vector, \<open>atan(0, 0)\<close>,
  \<open>smoothstep\<close> with \<open>edge0 \<ge> edge1\<close>) the model computes the value of the formula the
  GLSL specification gives, with HOL's \<open>x / 0 = 0\<close>; these places are marked below.
  The one place where an undefined result is made a value of its own is the square root
  in \<open>refract3D\<close>: \<open>glsl_sqrt\<close> returns \<open>None\<close> on a negative argument.
\<close>

type_synonym vec2 = "real \<times> real"
type_synonym vec3 = "real \<times> real \<times> real"
type_synonym vec4 = "real \<times> real \<times> real \<times> real"

subsection \<open>Vector arithmetic and the GLSL built-ins the shader calls\<close>

fun add2 :: "vec2 \<Rightarrow> vec2 \<Rightarrow> vec2" where
  "add2 (a, b) (c, d) = (a + c, b + d)"

fun sub2 :: "vec2 \<Rightarrow> vec2 \<Rightarrow> vec2" where
  "sub2 (a, b) (c, d) = (a - c, b - d)"

fun scale2 :: "vec2 \<Rightarrow> real \<Rightarrow> vec2" where
  "scale2 (a, b) s = (a * s, b * s)"

text \<open>\<open>vec2 + float\<close> and \<open>vec2 - float\<close> act on each component.\<close>

fun adds2 :: "vec2 \<Rightarrow> real \<Rightarrow> vec2" where
  "adds2 (a, b) s = (a + s, b + s)"

fun add3 :: "vec3 \<Rightarrow> vec3 \<Rightarrow> vec3" where
  "add3 (a, b, c) (d, e, f) = (a + d, b + e, c + f)"

fun sub3 :: "vec3 \<Rightarrow> vec3 \<Rightarrow> vec3" where
  "sub3 (a, b, c) (d, e, f) = (a - d, b - e, c - f)"

fun scale3 :: "vec3 \<Rightarrow> real \<Rightarrow> vec3" where
  "scale3 (a, b, c) s = (a * s, b * s, c * s)"

fun neg3 :: "vec3 \<Rightarrow> vec3" where
  "neg3 (a, b, c) = (- a, - b, - c)"

fun xy3 :: "vec3 \<Rightarrow> vec2" where
  "xy3 (a, b, c) = (a, b)"

fun xyz4 :: "vec4 \<Rightarrow> vec3" where
  "xyz4 (a, b, c, d) = (a, b, c)"

fun w4 :: "vec4 \<Rightarrow> real" where
  "w4 (a, b, c, d) = d"

fun dot2 :: "vec2 \<Rightarrow> vec2 \<Rightarrow> real" where
  "dot2 (a, b) (c, d) = a * c + b * d"

fun dot3 :: "vec3 \<Rightarrow> vec3 \<Rightarrow> real" where
  "dot3 (a, b, c) (d, e, f) = a * d + b * e + c * f"

definition length2 :: "vec2 \<Rightarrow> real" where
  "length2 v = sqrt (dot2 v v)"

definition length3 :: "vec3 \<Rightarrow> real" where
  "length3 v = sqrt (dot3 v v)"

text \<open>\<open>normalize(v) = v / length(v)\<close>; GLSL leaves it undefined for the zero vector.\<close>

definition normalize3 :: "vec3 \<Rightarrow> vec3" where
  "normalize3 v = scale3 v (1 / length3 v)"

text \<open>\<open>reflect(I, N) = I - 2 * dot(N, I) * N\<close>.\<close>

definition reflect :: "vec3 \<Rightarrow> vec3 \<Rightarrow> vec3" where
  "reflect i n = sub3 i (scale3 n (2 * dot3 n i))"

definition fract :: "real \<Rightarrow> real" where
  "fract x = x - of_int \<lfloor>x\<rfloor>"

text \<open>\<open>mod(x, y) = x - y * floor(x / y)\<close>.\<close>

definition glsl_mod :: "real \<Rightarrow> real \<Rightarrow> real" where
  "glsl_mod x y = x - y * of_int \<lfloor>x / y\<rfloor>"

definition step :: "real \<Rightarrow> real \<Rightarrow> real" where
  "step edge x = (if x < edge then 0 else 1)"

definition clamp :: "real \<Rightarrow> real \<Rightarrow> real \<Rightarrow> real" where
  "clamp x lo hi = min (max x lo) hi"

text \<open>
  \<open>smoothstep(edge0, edge1, x)\<close> is \<open>t * t * (3 - 2 * t)\<close> with
  \<open>t = clamp((x - edge0) / (edge1 - edge0), 0, 1)\<close>. The shader calls it once with
  \<open>edge0 > edge1\<close>, which GLSL leaves undefined; the model computes the formula.
\<close>

definition smoothstep :: "real \<Rightarrow> real \<Rightarrow> real \<Rightarrow> real" where
  "smoothstep edge0 edge1 x =
     (let t = clamp ((x - edge0) / (edge1 - edge0)) 0 1 in t * t * (3 - 2 * t))"

text \<open>\<open>mix(x, y, a) = x * (1 - a) + y * a\<close>, on each component.\<close>

fun mix3 :: "vec3 \<Rightarrow> vec3 \<Rightarrow> real \<Rightarrow> vec3" where
  "mix3 (a, b, c) (d, e, f) t = (a * (1 - t) + d * t, b * (1 - t) + e * t, c * (1 - t) + f * t)"

text \<open>
  The two-argument \<open>atan(y, x)\<close>: the angle of the point \<open>(x, y)\<close> in \<open>(-\<pi>, \<pi>]\<close>;
  GLSL leaves \<open>atan(0, 0)\<close> undefined, the model returns 0 there.
\<close>

definition atan2 :: "real \<Rightarrow> real \<Rightarrow> real" where
  "atan2 y x =
     (if 0 < x then arctan (y / x)
      else if x < 0 then (if 0 \<le> y then arctan (y / x) + pi else arctan (y / x) - pi)
      else if 0 < y then pi / 2
      else if y < 0 then - (pi / 2)
      else 0)"

text \<open>
  \<open>sqrt\<close> with its domain: GLSL leaves the square root of a negative number undefined
  (NaN on every common GPU); \<open>None\<close> stands for that outcome.
\<close>

definition glsl_sqrt :: "real \<Rightarrow> real option" where
  "glsl_sqrt x = (if x < 0 then None else Some (sqrt x))"

subsection \<open>Noise\<close>

definition noise :: "vec2 \<Rightarrow> real" where
  "noise p = fract (sin (dot2 p (12.9898, 78.233)) * 43758.5453)"

text \<open>The \<open>for\<close> loop of \<open>fbm\<close>, with the number of iterations left as its first argument.\<close>

fun fbm_loop :: "nat \<Rightarrow> vec2 \<Rightarrow> real \<Rightarrow> real \<Rightarrow> real \<Rightarrow> real" where
  "fbm_loop 0 p val amplitude frequency = val"
| "fbm_loop (Suc k) p val amplitude frequency =
     fbm_loop k p (val + amplitude * noise (scale2 p frequency)) (amplitude * 0.5) (frequency * 2)"

definition fbm :: "vec2 \<Rightarrow> real" where
  "fbm p = fbm_loop 4 p 0 0.5 1"

subsection \<open>Intersections and normals\<close>

definition intersectSphere :: "vec3 \<Rightarrow> vec3 \<Rightarrow> vec3 \<Rightarrow> real \<Rightarrow> vec2" where
  "intersectSphere rayOrigin rayDir sphereCenter radius =
     (let oc = sub3 rayOrigin sphereCenter;
          b = dot3 oc rayDir;
          c = dot3 oc oc - radius * radius;
          discriminant = b * b - c
      in if discriminant < 0 then (- 1, - 1)
         else let sqrt_discriminant = sqrt discriminant;
                  t1 = - b - sqrt_discriminant;
                  t2 = - b + sqrt_discriminant
              in (t1, t2))"

text \<open>
  The shader calls \<open>intersectCylinder\<close> with \<open>rayDir = (0, 0, -1)\<close> only, so \<open>a = 0\<close> and
  both quotients are \<open>0 / 0\<close>: NaN in GLSL, for which \<open>intersections.x < 0.0\<close> is false;
  the quotient is 0 in HOL, for which it is false as well.
\<close>

definition intersectCylinder :: "vec3 \<Rightarrow> vec3 \<Rightarrow> vec3 \<Rightarrow> real \<Rightarrow> vec2" where
  "intersectCylinder rayOrigin rayDir cylinderCenter radius =
     (let ro = sub2 (xy3 rayOrigin) (xy3 cylinderCenter);
          rd = xy3 rayDir;
          a = dot2 rd rd;
          b = 2 * dot2 ro rd;
          c = dot2 ro ro - radius * radius;
          discriminant = b * b - 4 * a * c
      in if discriminant < 0 then (- 1, - 1)
         else let sqrt_discriminant = sqrt discriminant;
                  t1 = (- b - sqrt_discriminant) / (2 * a);
                  t2 = (- b + sqrt_discriminant) / (2 * a)
              in (t1, t2))"

definition getSphereNormal :: "vec3 \<Rightarrow> vec3 \<Rightarrow> vec3" where
  "getSphereNormal point center = normalize3 (sub3 point center)"

definition getCylinderNormal :: "vec3 \<Rightarrow> vec3 \<Rightarrow> vec3" where
  "getCylinderNormal point center =
     (let toPoint = sub3 point center in normalize3 (fst toPoint, fst (snd toPoint), 0))"

subsection \<open>Refraction and reflection\<close>

definition refract3D :: "vec3 \<Rightarrow> vec3 \<Rightarrow> real \<Rightarrow> vec3 option" where
  "refract3D incident normal eta =
     (let cosI = dot3 (neg3 incident) normal;
          sinT2 = eta * eta * (1 - cosI * cosI)
      in if sinT2 \<ge> 1 then Some (reflect incident normal)
         else case glsl_sqrt (1 - sinT2) of
                None \<Rightarrow> None
              | Some cosT \<Rightarrow> Some (add3 (scale3 incident eta) (scale3 normal (eta * cosI - cosT))))"

text \<open>
  \<open>pow\<close> is called with the constant exponents 2.0, 5.0 and 3.0 only; it is modelled by
  the power with that exponent (GLSL leaves \<open>pow(x, y)\<close> undefined for \<open>x < 0\<close>).
\<close>

definition fresnel :: "real \<Rightarrow> real \<Rightarrow> real \<Rightarrow> real" where
  "fresnel cosTheta n1 n2 =
     (let r0 = ((n1 - n2) / (n1 + n2)) ^ 2 in r0 + (1 - r0) * (1 - cosTheta) ^ 5)"

subsection \<open>Uniforms and background patterns\<close>

text \<open>
  The uniforms of the shader, with the names they have there. The sampler is the function
  \<open>texture2D\<close> computes on it. \<open>u_resolution\<close> is declared and never read.
\<close>

record frag_uniforms =
  u_time :: real
  u_resolution :: vec2
  u_mousePos :: vec2
  u_refractionIndex :: real
  u_dispersion :: real
  u_thickness :: real
  u_glassSize :: real
  u_glassShape :: real
  u_backgroundPattern :: real
  u_backgroundTexture :: "vec2 \<Rightarrow> vec4"

definition getBackgroundPattern :: "frag_uniforms \<Rightarrow> vec2 \<Rightarrow> real \<Rightarrow> vec3" where
  "getBackgroundPattern u uv patternType =
     (if patternType < 0.5 then
        (let stripeWidth = 0.1;
             stripe = step 0.5 (glsl_mod (fst uv / stripeWidth) 1)
         in (stripe, stripe, stripe))
      else if patternType < 1.5 then
        (let gridSize = 0.05;
             grid = (step 0.5 (glsl_mod (fst uv / gridSize) 1),
                     step 0.5 (glsl_mod (snd uv / gridSize) 1));
             pattern = max (fst grid) (snd grid)
         in (pattern, pattern, pattern))
      else if patternType < 2.5 then
        (let dist = length2 (adds2 uv (- 0.5));
             rings = sin (dist * 50) * 0.5 + 0.5
         in (rings, rings, rings))
      else xyz4 (u_backgroundTexture u uv))"

subsection \<open>The shape intersector\<close>

text \<open>The surface perturbation that closes \<open>traceGlassShape\<close>; the result is \<open>vec4(normal1, 1.0)\<close>.\<close>

definition perturbed :: "real \<Rightarrow> vec2 \<Rightarrow> vec3 \<Rightarrow> vec3 \<Rightarrow> vec4" where
  "perturbed time_u uv normal1 normal2 =
     (let perturbation =
            (fbm (adds2 (scale2 uv 20) (time_u * 0.1)) * 0.02,
             fbm (adds2 (scale2 uv 20) (time_u * 0.13)) * 0.02,
             0);
          n1 = normalize3 (add3 normal1 perturbation);
          n2 = normalize3 (add3 normal2 perturbation)
      in (fst n1, fst (snd n1), snd (snd n1), 1))"

text \<open>\<open>traceGlassShape\<close> reads the uniform \<open>u_time\<close>; it is the first argument here.\<close>

definition traceGlassShape :: "real \<Rightarrow> vec2 \<Rightarrow> vec2 \<Rightarrow> real \<Rightarrow> real \<Rightarrow> vec4" where
  "traceGlassShape time_u uv mouseUV shapeType glassSize =
     (let rayOrigin = (fst uv, snd uv, 2);
          rayDir = (0, 0, - 1);
          glassCenter = (fst mouseUV, snd mouseUV, 0)
      in if shapeType < 0.5 then
           (let intersections = intersectSphere rayOrigin rayDir glassCenter glassSize
            in if fst intersections < 0 then (0, 0, 0, 0)
               else let enterPoint = add3 rayOrigin (scale3 rayDir (fst intersections));
                        exitPoint = add3 rayOrigin (scale3 rayDir (snd intersections));
                        normal1 = getSphereNormal enterPoint glassCenter;
                        normal2 = neg3 (getSphereNormal exitPoint glassCenter)
                    in perturbed time_u uv normal1 normal2)
         else if shapeType < 1.5 then
           (let intersections = intersectCylinder rayOrigin rayDir glassCenter glassSize
            in if fst intersections < 0 then (0, 0, 0, 0)
               else let enterPoint = add3 rayOrigin (scale3 rayDir (fst intersections));
                        exitPoint = add3 rayOrigin (scale3 rayDir (snd intersections));
                        normal1 = getCylinderNormal enterPoint glassCenter;
                        normal2 = neg3 (getCylinderNormal exitPoint glassCenter)
                    in perturbed time_u uv normal1 normal2)
         else if shapeType < 2.5 then
           (let lensRatio = 1.5;
                lensCenter = (fst mouseUV, snd mouseUV, 0);
                intersections = intersectSphere rayOrigin rayDir lensCenter (glassSize * lensRatio)
            in if fst intersections < 0 then (0, 0, 0, 0)
               else let enterPoint = add3 rayOrigin (scale3 rayDir (fst intersections));
                        exitPoint = add3 rayOrigin (scale3 rayDir (snd intersections));
                        n1 = getSphereNormal enterPoint lensCenter;
                        n2 = neg3 (getSphereNormal exitPoint lensCenter);
                        normal1 = normalize3 (fst n1, fst (snd n1), snd (snd n1) * 0.3);
                        normal2 = normalize3 (fst n2, fst (snd n2), snd (snd n2) * 0.3)
                    in perturbed time_u uv normal1 normal2)
         else if shapeType < 3.5 then
           (let dist = length2 (sub2 uv mouseUV)
            in if dist > glassSize then (0, 0, 0, 0)
               else let centered = sub2 uv mouseUV;
                        angle = atan2 (snd centered) (fst centered);
                        prismEffect = sin (angle * 3) * 0.3 + 0.7
                    in if dist > glassSize * prismEffect then (0, 0, 0, 0)
                       else let normal1 = normalize3 (sin (angle * 3), cos (angle * 3), 1);
                                normal2 = neg3 normal1
                            in perturbed time_u uv normal1 normal2)
         else
           (let dist = length2 (sub2 uv mouseUV)
            in if dist > glassSize then (0, 0, 0, 0)
               else let normal1 = (0, 0, 1);
                        normal2 = (0, 0, - 1)
                    in perturbed time_u uv normal1 normal2))"

subsection \<open>The compositor \<open>main\<close>\<close>

text \<open>
  \<open>main\<close> is split at its comments; each definition below is a run of consecutive
  statements of \<open>main\<close> and keeps the names of the variables it computes.
\<close>

definition viewDir :: vec3 where
  "viewDir = (0, 0, 1)"

definition redEta :: "frag_uniforms \<Rightarrow> real" where
  "redEta u = 1 / (u_refractionIndex u - u_dispersion u)"

definition greenEta :: "frag_uniforms \<Rightarrow> real" where
  "greenEta u = 1 / u_refractionIndex u"

definition blueEta :: "frag_uniforms \<Rightarrow> real" where
  "blueEta u = 1 / (u_refractionIndex u + u_dispersion u)"

definition refractedR :: "frag_uniforms \<Rightarrow> vec3 \<Rightarrow> vec3 option" where
  "refractedR u normal = refract3D (neg3 viewDir) normal (redEta u)"

definition refractedG :: "frag_uniforms \<Rightarrow> vec3 \<Rightarrow> vec3 option" where
  "refractedG u normal = refract3D (neg3 viewDir) normal (greenEta u)"

definition refractedB :: "frag_uniforms \<Rightarrow> vec3 \<Rightarrow> vec3 option" where
  "refractedB u normal = refract3D (neg3 viewDir) normal (blueEta u)"

text \<open>The distortion scale: the statements from \<open>float distortionScale\<close> to the end of the \<open>if\<close>.\<close>

definition distortionScale :: "real \<Rightarrow> real \<Rightarrow> vec2 \<Rightarrow> vec2 \<Rightarrow> real" where
  "distortionScale thickness_u glassShape_u uv mouseUV =
     (let distortionScale0 = thickness_u * 0.3
      in if glassShape_u < 2.5 then
           (let centerOffset = sub2 uv mouseUV;
                distFromCenter = length2 centerOffset;
                curvatureEffect = 1 + distFromCenter * distFromCenter * 2
            in distortionScale0 * curvatureEffect)
         else distortionScale0)"

definition channelOffset :: "frag_uniforms \<Rightarrow> vec2 \<Rightarrow> vec3 \<Rightarrow> vec2" where
  "channelOffset u uv refracted =
     scale2 (xy3 refracted) (distortionScale (u_thickness u) (u_glassShape u) uv (u_mousePos u))"

definition offsetR :: "frag_uniforms \<Rightarrow> vec2 \<Rightarrow> vec3 \<Rightarrow> vec2 option" where
  "offsetR u uv normal = map_option (channelOffset u uv) (refractedR u normal)"

definition offsetG :: "frag_uniforms \<Rightarrow> vec2 \<Rightarrow> vec3 \<Rightarrow> vec2 option" where
  "offsetG u uv normal = map_option (channelOffset u uv) (refractedG u normal)"

definition offsetB :: "frag_uniforms \<Rightarrow> vec2 \<Rightarrow> vec3 \<Rightarrow> vec2 option" where
  "offsetB u uv normal = map_option (channelOffset u uv) (refractedB u normal)"

text \<open>The coordinate a channel samples the background at: \<open>uv + offset\<close>.\<close>

definition sampleCoord :: "vec2 \<Rightarrow> vec2 option \<Rightarrow> vec2 option" where
  "sampleCoord uv off = map_option (add2 uv) off"

definition bgColor :: "frag_uniforms \<Rightarrow> vec2 option \<Rightarrow> vec3 option" where
  "bgColor u coord = map_option (\<lambda>c. getBackgroundPattern u c (u_backgroundPattern u)) coord"

text \<open>\<open>vec3(bgColorR.r, bgColorG.g, bgColorB.b)\<close>.\<close>

definition refractedColor :: "frag_uniforms \<Rightarrow> vec2 \<Rightarrow> vec3 \<Rightarrow> vec3 option" where
  "refractedColor u uv normal =
     (case (bgColor u (sampleCoord uv (offsetR u uv normal)),
            bgColor u (sampleCoord uv (offsetG u uv normal)),
            bgColor u (sampleCoord uv (offsetB u uv normal))) of
        (Some bgColorR, Some bgColorG, Some bgColorB) \<Rightarrow>
           Some (fst bgColorR, fst (snd bgColorG), snd (snd bgColorB))
      | _ \<Rightarrow> None)"

text \<open>The alpha channel: the statements from \<open>float dist\<close> to \<open>alpha += edge * 0.6\<close>.\<close>

definition glassAlpha :: "frag_uniforms \<Rightarrow> vec2 \<Rightarrow> real" where
  "glassAlpha u uv =
     (let dist = length2 (sub2 uv (u_mousePos u));
          glassMask = smoothstep (u_glassSize u + 0.02) (u_glassSize u - 0.02) dist;
          alpha = glassMask * 0.4;
          edge = 1 - smoothstep (u_glassSize u - 0.005) (u_glassSize u) dist
      in alpha + edge * 0.6)"

text \<open>
  \<open>main\<close>: the value written to \<open>gl_FragColor\<close> for the pixel at \<open>v_uv\<close>, \<open>None\<close> when a
  refracted direction is undefined.
\<close>

definition main :: "frag_uniforms \<Rightarrow> vec2 \<Rightarrow> vec4 option" where
  "main u v_uv =
     (let uv = v_uv;
          mouseUV = u_mousePos u;
          glassInfo = traceGlassShape (u_time u) uv mouseUV (u_glassShape u) (u_glassSize u)
      in if w4 glassInfo < 0.5 then Some (0, 0, 0, 0)
         else let normal = xyz4 glassInfo;
                  cosTheta = \<bar>dot3 viewDir normal\<bar>;
                  fresnelTerm = fresnel cosTheta 1 (u_refractionIndex u)
              in case refractedColor u uv normal of
                   None \<Rightarrow> None
                 | Some refractedCol \<Rightarrow>
                     let reflectionColor = (0.9, 0.95, 1);
                         mixed = mix3 refractedCol reflectionColor fresnelTerm;
                         caustic = (max 0 (dot3 normal (0.5, 0.5, 1))) ^ 3;
                         finalColor = add3 mixed (scale3 (1, 1, 0.9) (caustic * 0.4))
                     in Some (fst finalColor, fst (snd finalColor), snd (snd finalColor),
                              glassAlpha u uv))"

section \<open>The library class (PhysicsGlass.ts, types.ts, utils/webgl.ts)\<close>

text \<open>
  A JavaScript \<open>number\<close> is modelled by \<^typ>\<open>real\<close>. The fields of the configuration
  carry the prefix \<open>cfg_\<close>, those of the configuration the caller passes \<open>opt_\<close>, those
  of \<open>ShaderUniforms\<close> \<open>uni_\<close>, those of \<open>WebGLState\<close> \<open>ws_\<close>; the fields of the
  instance keep their names. A GPU object (texture, buffer, program) is its handle, a
  natural number.
\<close>

subsection \<open>types.ts\<close>

datatype GlassShape = Sphere | Cylinder | Lens | Prism | Flat

datatype BackgroundPattern = Stripes | Grid | Circles | Texture

datatype ErrorCode =
    WEBGL_NOT_SUPPORTED
  | CANVAS_NOT_FOUND
  | SHADER_COMPILATION_FAILED
  | TEXTURE_LOAD_FAILED
  | INVALID_CONFIGURATION

text \<open>What the code throws: a \<open>PhysicsGlassError\<close> (message, code), or the runtime's \<open>TypeError\<close>.\<close>

datatype js_error = PhysicsGlassError string ErrorCode | TypeError

text \<open>\<open>HTMLImageElement | HTMLCanvasElement | string\<close>: an element, or the URL of an image.\<close>

datatype TextureSource = Url string | Element nat

record GlassMaterial =
  mat_name :: string
  mat_refractionIndex :: real
  mat_dispersion :: real
  mat_description :: string

record MouseConfig =
  mouse_enabled :: bool
  mouse_followCursor :: bool
  mouse_centerX :: real
  mouse_centerY :: real

record AnimationConfig =
  anim_enabled :: bool
  anim_speed :: real
  anim_surfaceRipples :: bool

text \<open>
  \<open>PhysicsGlassConfig\<close>, every field optional. Of \<open>performance\<close> the class reads
  \<open>pixelRatio\<close> only; the callbacks are not stored, their calls are recorded in the
  instance (\<open>callbacks\<close> below).
\<close>

record PhysicsGlassConfig =
  opt_shape :: "GlassShape option"
  opt_size :: "real option"
  opt_refractionIndex :: "real option"
  opt_dispersion :: "real option"
  opt_thickness :: "real option"
  opt_backgroundPattern :: "BackgroundPattern option"
  opt_backgroundTexture :: "TextureSource option"
  opt_mouse :: "MouseConfig option"
  opt_animation :: "AnimationConfig option"
  opt_pixelRatio :: "real option"

text \<open>\<open>Required<PhysicsGlassConfig>\<close>: the configuration the instance holds.\<close>

record GlassConfig =
  cfg_shape :: GlassShape
  cfg_size :: real
  cfg_refractionIndex :: real
  cfg_dispersion :: real
  cfg_thickness :: real
  cfg_backgroundPattern :: BackgroundPattern
  cfg_backgroundTexture :: TextureSource
  cfg_mouse :: MouseConfig
  cfg_animation :: AnimationConfig
  cfg_pixelRatio :: real

record ShaderUniforms =
  uni_time :: real
  uni_resolution :: vec2
  uni_mousePos :: vec2
  uni_refractionIndex :: real
  uni_dispersion :: real
  uni_thickness :: real
  uni_glassSize :: real
  uni_glassShape :: real
  uni_backgroundPattern :: real

text \<open>\<open>WebGLState\<close>; \<open>gl\<close> is the context, whose calls are recorded in the instance.\<close>

record WebGLState =
  ws_program :: nat
  ws_backgroundTexture :: "nat option"

definition GLASS_MATERIALS :: "(string \<times> GlassMaterial) list" where
  "GLASS_MATERIALS =
     [(''water'', \<lparr>mat_name = ''Water'', mat_refractionIndex = 1.33, mat_dispersion = 0.01,
                   mat_description = ''Clear water with minimal dispersion''\<rparr>),
      (''crownGlass'', \<lparr>mat_name = ''Crown Glass'', mat_refractionIndex = 1.52, mat_dispersion = 0.02,
                   mat_description = ''Standard optical glass used in windows and lenses''\<rparr>),
      (''flintGlass'', \<lparr>mat_name = ''Flint Glass'', mat_refractionIndex = 1.65, mat_dispersion = 0.05,
                   mat_description = ''Dense glass with high dispersion for prisms''\<rparr>),
      (''diamond'', \<lparr>mat_name = ''Diamond'', mat_refractionIndex = 2.42, mat_dispersion = 0.08,
                   mat_description = ''Extremely high refraction creating brilliant effects''\<rparr>),
      (''acrylic'', \<lparr>mat_name = ''Acrylic'', mat_refractionIndex = 1.49, mat_dispersion = 0.015,
                   mat_description = ''Lightweight plastic with glass-like properties''\<rparr>)]"

subsection \<open>The surroundings of an instance\<close>

text \<open>
  The canvas element: its drawing-buffer size and the rectangle
  \<open>getBoundingClientRect\<close> returns.
\<close>

record HTMLCanvasElement =
  canvas_width :: real
  canvas_height :: real
  rect_left :: real
  rect_top :: real
  rect_width :: real
  rect_height :: real

text \<open>What the constructor reads of the page: \<open>document.querySelector\<close> and \<open>window.devicePixelRatio\<close>.\<close>

record browser =
  querySelector :: "string \<Rightarrow> HTMLCanvasElement option"
  devicePixelRatio :: real

text \<open>
  The calls made on the WebGL context, in the order they are made. \<open>GlSetup\<close> is a call
  that configures the context (its name is the argument); the calls the development
  reasons about have a constructor of their own.
\<close>

datatype gl_call =
    GlSetup string
  | GlUseProgram nat
  | GlViewport real real
  | GlClear
  | GlUniform1f string real
  | GlUniform2f string real real
  | GlUniform1i string int
  | GlActiveTexture0
  | GlBindTexture nat
  | GlDrawArrays
  | GlDeleteTexture nat
  | GlDeleteBuffer nat
  | GlDeleteProgram nat

datatype listener = MouseMove | MouseLeave | WindowResize | ContextLost | ContextRestored

datatype callback =
    OnReady
  | OnError js_error
  | OnShapeChange GlassShape
  | OnMaterialChange GlassMaterial

text \<open>
  The instance. After its own fields come the effects it has on its surroundings: the
  calls on the WebGL context, the event listeners registered, the animation frames
  requested and not yet run or cancelled, the identifier the next
  \<open>requestAnimationFrame\<close> returns, and the callbacks of the configuration called so far.
\<close>

record PhysicsGlass =
  canvas :: HTMLCanvasElement
  config :: GlassConfig
  webglState :: "WebGLState option"
  animationId :: "nat option"
  isDestroyed :: bool
  time :: real
  mousePos :: vec2
  uniforms :: ShaderUniforms
  cleanupContextLoss :: bool
  vertexBuffer :: "nat option"
  glCalls :: "gl_call list"
  listeners :: "listener set"
  rafPending :: "nat set"
  rafNext :: nat
  callbacks :: "callback list"

subsection \<open>Construction\<close>

definition DEFAULT_CONFIG :: "browser \<Rightarrow> GlassConfig" where
  "DEFAULT_CONFIG w =
     \<lparr>cfg_shape = Sphere,
      cfg_size = 0.15,
      cfg_refractionIndex = 1.5,
      cfg_dispersion = 0.03,
      cfg_thickness = 0.3,
      cfg_backgroundPattern = Stripes,
      cfg_backgroundTexture = Url [],
      cfg_mouse = \<lparr>mouse_enabled = True, mouse_followCursor = True,
                   mouse_centerX = 0.5, mouse_centerY = 0.5\<rparr>,
      cfg_animation = \<lparr>anim_enabled = True, anim_speed = 1, anim_surfaceRipples = True\<rparr>,
      cfg_pixelRatio = (if devicePixelRatio w = 0 then 1 else devicePixelRatio w)\<rparr>"

text \<open>\<open>{ ...DEFAULT_CONFIG, ...config }\<close>: a field the caller gives replaces the default whole.\<close>

definition merge_config :: "GlassConfig \<Rightarrow> PhysicsGlassConfig \<Rightarrow> GlassConfig" where
  "merge_config d c =
     \<lparr>cfg_shape = (case opt_shape c of None \<Rightarrow> cfg_shape d | Some v \<Rightarrow> v),
      cfg_size = (case opt_size c of None \<Rightarrow> cfg_size d | Some v \<Rightarrow> v),
      cfg_refractionIndex = (case opt_refractionIndex c of None \<Rightarrow> cfg_refractionIndex d | Some v \<Rightarrow> v),
      cfg_dispersion = (case opt_dispersion c of None \<Rightarrow> cfg_dispersion d | Some v \<Rightarrow> v),
      cfg_thickness = (case opt_thickness c of None \<Rightarrow> cfg_thickness d | Some v \<Rightarrow> v),
      cfg_backgroundPattern = (case opt_backgroundPattern c of None \<Rightarrow> cfg_backgroundPattern d | Some v \<Rightarrow> v),
      cfg_backgroundTexture = (case opt_backgroundTexture c of None \<Rightarrow> cfg_backgroundTexture d | Some v \<Rightarrow> v),
      cfg_mouse = (case opt_mouse c of None \<Rightarrow> cfg_mouse d | Some v \<Rightarrow> v),
      cfg_animation = (case opt_animation c of None \<Rightarrow> cfg_animation d | Some v \<Rightarrow> v),
      cfg_pixelRatio = (case opt_pixelRatio c of None \<Rightarrow> cfg_pixelRatio d | Some v \<Rightarrow> v)\<rparr>"

text \<open>\<open>Array.prototype.indexOf\<close>: the first position of the element, or -1.\<close>

fun indexOf_from :: "'a list \<Rightarrow> 'a \<Rightarrow> int \<Rightarrow> int" where
  "indexOf_from [] x i = - 1"
| "indexOf_from (y # ys) x i = (if y = x then i else indexOf_from ys x (i + 1))"

definition indexOf :: "'a list \<Rightarrow> 'a \<Rightarrow> int" where
  "indexOf xs x = indexOf_from xs x 0"

definition getShapeIndex :: "GlassShape \<Rightarrow> real" where
  "getShapeIndex shape = (let shapes = [Sphere, Cylinder, Lens, Prism, Flat] in of_int (indexOf shapes shape))"

definition getPatternIndex :: "BackgroundPattern \<Rightarrow> real" where
  "getPatternIndex pattern = (let patterns = [Stripes, Grid, Circles, Texture] in of_int (indexOf patterns pattern))"

text \<open>\<open>validateConfig\<close>: the error it throws, if any.\<close>

definition validateConfig :: "GlassConfig \<Rightarrow> js_error option" where
  "validateConfig c =
     (if cfg_size c \<le> 0 \<or> cfg_size c > 1 then
        Some (PhysicsGlassError ''Glass size must be between 0 and 1'' INVALID_CONFIGURATION)
      else if cfg_refractionIndex c < 1 \<or> cfg_refractionIndex c > 3 then
        Some (PhysicsGlassError ''Refraction index must be between 1 and 3'' INVALID_CONFIGURATION)
      else None)"

text \<open>The first argument of the constructor: the element, or a selector for it.\<close>

datatype canvas_arg = CanvasElement HTMLCanvasElement | CanvasSelector string

text \<open>
  The constructor up to its last statement, the call of \<open>init\<close>: \<open>init\<close> is asynchronous,
  the promise it returns is dropped and nothing it throws reaches the caller of the
  constructor. \<open>init\<close> is a step of its own below.
\<close>

definition constructor :: "browser \<Rightarrow> canvas_arg \<Rightarrow> PhysicsGlassConfig \<Rightarrow> js_error + PhysicsGlass" where
  "constructor w cv cfg =
     (case (case cv of
              CanvasSelector sel \<Rightarrow>
                (case querySelector w sel of
                   None \<Rightarrow> Inl (PhysicsGlassError (''Canvas element not found: '' @ sel) CANVAS_NOT_FOUND)
                 | Some element \<Rightarrow> Inr element)
            | CanvasElement element \<Rightarrow> Inr element) of
        Inl e \<Rightarrow> Inl e
      | Inr element \<Rightarrow>
          (let c = merge_config (DEFAULT_CONFIG w) cfg
           in case validateConfig c of
                Some e \<Rightarrow> Inl e
              | None \<Rightarrow>
                  Inr \<lparr>canvas = element,
                       config = c,
                       webglState = None,
                       animationId = None,
                       isDestroyed = False,
                       time = 0,
                       mousePos = (0.5, 0.5),
                       uniforms =
                         \<lparr>uni_time = 0,
                          uni_resolution = (canvas_width element, canvas_height element),
                          uni_mousePos = (mouse_centerX (cfg_mouse c), mouse_centerY (cfg_mouse c)),
                          uni_refractionIndex = cfg_refractionIndex c,
                          uni_dispersion = cfg_dispersion c,
                          uni_thickness = cfg_thickness c,
                          uni_glassSize = cfg_size c,
                          uni_glassShape = getShapeIndex (cfg_shape c),
                          uni_backgroundPattern = getPatternIndex (cfg_backgroundPattern c)\<rparr>,
                       cleanupContextLoss = False,
                       vertexBuffer = None,
                       glCalls = [],
                       listeners = {},
                       rafPending = {},
                       rafNext = 1,
                       callbacks = []\<rparr>))"

subsection \<open>Setters\<close>

definition setShape :: "GlassShape \<Rightarrow> PhysicsGlass \<Rightarrow> PhysicsGlass" where
  "setShape shape s =
     s\<lparr>config := (config s)\<lparr>cfg_shape := shape\<rparr>,
       uniforms := (uniforms s)\<lparr>uni_glassShape := getShapeIndex shape\<rparr>,
       callbacks := callbacks s @ [OnShapeChange shape]\<rparr>"

definition setSize :: "real \<Rightarrow> PhysicsGlass \<Rightarrow> PhysicsGlass" where
  "setSize sz s =
     (let v = max 0.01 (min 1 sz)
      in s\<lparr>config := (config s)\<lparr>cfg_size := v\<rparr>,
           uniforms := (uniforms s)\<lparr>uni_glassSize := v\<rparr>\<rparr>)"

definition setRefractionIndex :: "real \<Rightarrow> PhysicsGlass \<Rightarrow> PhysicsGlass" where
  "setRefractionIndex index s =
     (let v = max 1 (min 3 index)
      in s\<lparr>config := (config s)\<lparr>cfg_refractionIndex := v\<rparr>,
           uniforms := (uniforms s)\<lparr>uni_refractionIndex := v\<rparr>\<rparr>)"

definition setDispersion :: "real \<Rightarrow> PhysicsGlass \<Rightarrow> PhysicsGlass" where
  "setDispersion d s =
     (let v = max 0 (min 0.2 d)
      in s\<lparr>config := (config s)\<lparr>cfg_dispersion := v\<rparr>,
           uniforms := (uniforms s)\<lparr>uni_dispersion := v\<rparr>\<rparr>)"

definition setThickness :: "real \<Rightarrow> PhysicsGlass \<Rightarrow> PhysicsGlass" where
  "setThickness t s =
     (let v = max 0.1 (min 2 t)
      in s\<lparr>config := (config s)\<lparr>cfg_thickness := v\<rparr>,
           uniforms := (uniforms s)\<lparr>uni_thickness := v\<rparr>\<rparr>)"

definition setBackgroundPattern :: "BackgroundPattern \<Rightarrow> PhysicsGlass \<Rightarrow> PhysicsGlass" where
  "setBackgroundPattern pattern s =
     s\<lparr>config := (config s)\<lparr>cfg_backgroundPattern := pattern\<rparr>,
       uniforms := (uniforms s)\<lparr>uni_backgroundPattern := getPatternIndex pattern\<rparr>\<rparr>"

text \<open>\<open>setMaterial\<close>: a preset's name, or a material.\<close>

datatype material_arg = MaterialName string | MaterialObject GlassMaterial

definition setMaterial :: "material_arg \<Rightarrow> PhysicsGlass \<Rightarrow> PhysicsGlass" where
  "setMaterial material s =
     (case (case material of
              MaterialName n \<Rightarrow> map_of GLASS_MATERIALS n
            | MaterialObject m \<Rightarrow> Some m) of
        None \<Rightarrow> s
      | Some mat \<Rightarrow>
          (let s1 = setRefractionIndex (mat_refractionIndex mat) s;
               s2 = setDispersion (mat_dispersion mat) s1
           in s2\<lparr>callbacks := callbacks s2 @ [OnMaterialChange mat]\<rparr>))"

definition setMousePosition :: "real \<Rightarrow> real \<Rightarrow> PhysicsGlass \<Rightarrow> PhysicsGlass" where
  "setMousePosition x y s =
     (let p = (max 0 (min 1 x), max 0 (min 1 y))
      in s\<lparr>mousePos := p, uniforms := (uniforms s)\<lparr>uni_mousePos := p\<rparr>\<rparr>)"

definition enableMouseTracking :: "bool \<Rightarrow> PhysicsGlass \<Rightarrow> PhysicsGlass" where
  "enableMouseTracking en s =
     (let s1 = s\<lparr>config := (config s)\<lparr>cfg_mouse := (cfg_mouse (config s))\<lparr>mouse_enabled := en\<rparr>\<rparr>\<rparr>
      in if \<not> en then
           setMousePosition (mouse_centerX (cfg_mouse (config s1))) (mouse_centerY (cfg_mouse (config s1))) s1
         else s1)"

definition setAnimationSpeed :: "real \<Rightarrow> PhysicsGlass \<Rightarrow> PhysicsGlass" where
  "setAnimationSpeed speed s =
     s\<lparr>config := (config s)\<lparr>cfg_animation := (cfg_animation (config s))\<lparr>anim_speed := max 0 (min 5 speed)\<rparr>\<rparr>\<rparr>"

subsection \<open>utils/webgl.ts: what the browser and the GPU answer\<close>

text \<open>
  The answers of the browser and of the WebGL implementation to the calls of
  \<open>utils/webgl.ts\<close>: whether WebGL is there, whether a context is obtained, what compiling
  and linking the two shaders ends with (the program, or the error \<open>createShader\<close> or
  \<open>createProgram\<close> throws), what \<open>gl.createBuffer\<close> and \<open>gl.createTexture\<close> return
  (\<open>None\<close> is \<open>null\<close>), and whether the image of a URL loads.
\<close>

record gl_env =
  ge_supported :: bool
  ge_getContext :: bool
  ge_program :: "js_error + nat"
  ge_createBuffer :: "nat option"
  ge_createTexture :: "nat option"
  ge_imageLoads :: bool

text \<open>
  \<open>createTextureFromElement\<close>: the texture or the error thrown, and the calls made on the
  context. The element only provides the pixels of \<open>texImage2D\<close>.
\<close>

definition createTextureFromElement :: "gl_env \<Rightarrow> (js_error + nat) \<times> gl_call list" where
  "createTextureFromElement env =
     (case ge_createTexture env of
        None \<Rightarrow> (Inl (PhysicsGlassError ''Failed to create texture'' TEXTURE_LOAD_FAILED), [])
      | Some texture \<Rightarrow>
          (Inr texture,
           [GlBindTexture texture, GlSetup ''texImage2D'', GlSetup ''texParameteri'',
            GlSetup ''texParameteri'', GlSetup ''texParameteri'', GlSetup ''texParameteri'']))"

text \<open>\<open>loadImageTexture\<close>: what the promise settles with (\<open>Inl\<close> is a rejection).\<close>

definition loadImageTexture :: "gl_env \<Rightarrow> string \<Rightarrow> (js_error + nat) \<times> gl_call list" where
  "loadImageTexture env url =
     (if ge_imageLoads env then createTextureFromElement env
      else (Inl (PhysicsGlassError (''Failed to load image: '' @ url) TEXTURE_LOAD_FAILED), []))"

definition createDefaultTexture :: "gl_env \<Rightarrow> (js_error + nat) \<times> gl_call list" where
  "createDefaultTexture env = createTextureFromElement env"

definition createQuadBuffer :: "gl_env \<Rightarrow> (js_error + nat) \<times> gl_call list" where
  "createQuadBuffer env =
     (case ge_createBuffer env of
        None \<Rightarrow> (Inl (PhysicsGlassError ''Failed to create vertex buffer'' WEBGL_NOT_SUPPORTED), [])
      | Some buffer \<Rightarrow> (Inr buffer, [GlSetup ''bindBuffer'', GlSetup ''bufferData'']))"

subsection \<open>Truthiness\<close>

text \<open>
  \<open>if (this.animationId)\<close> and \<open>if (!this.animationId)\<close>: \<open>null\<close> and 0 are falsy.
  \<open>if (this.config.backgroundTexture)\<close>: the empty string is falsy, an element is truthy.
\<close>

definition truthy_id :: "nat option \<Rightarrow> bool" where
  "truthy_id a = (case a of None \<Rightarrow> False | Some n \<Rightarrow> n \<noteq> 0)"

definition truthy_source :: "TextureSource \<Rightarrow> bool" where
  "truthy_source t = (case t of Url u \<Rightarrow> u \<noteq> [] | Element e \<Rightarrow> True)"

subsection \<open>Rendering and animation\<close>

definition gl :: "gl_call list \<Rightarrow> PhysicsGlass \<Rightarrow> PhysicsGlass" where
  "gl cs s = s\<lparr>glCalls := glCalls s @ cs\<rparr>"

definition onError :: "js_error \<Rightarrow> PhysicsGlass \<Rightarrow> PhysicsGlass" where
  "onError e s = s\<lparr>callbacks := callbacks s @ [OnError e]\<rparr>"

definition updateUniforms :: "PhysicsGlass \<Rightarrow> PhysicsGlass" where
  "updateUniforms s =
     (case webglState s of
        None \<Rightarrow> s
      | Some ws \<Rightarrow>
          (let u = uniforms s;
               s1 = gl [GlUniform1f ''u_time'' (uni_time u),
                        GlUniform2f ''u_resolution'' (fst (uni_resolution u)) (snd (uni_resolution u)),
                        GlUniform2f ''u_mousePos'' (fst (uni_mousePos u)) (snd (uni_mousePos u)),
                        GlUniform1f ''u_refractionIndex'' (uni_refractionIndex u),
                        GlUniform1f ''u_dispersion'' (uni_dispersion u),
                        GlUniform1f ''u_thickness'' (uni_thickness u),
                        GlUniform1f ''u_glassSize'' (uni_glassSize u),
                        GlUniform1f ''u_glassShape'' (uni_glassShape u),
                        GlUniform1f ''u_backgroundPattern'' (uni_backgroundPattern u)] s
           in case ws_backgroundTexture ws of
                None \<Rightarrow> s1
              | Some texture \<Rightarrow>
                  gl [GlActiveTexture0, GlBindTexture texture, GlUniform1i ''u_backgroundTexture'' 0] s1))"

text \<open>\<open>requestAnimationFrame(this.render)\<close>, its result stored in \<open>animationId\<close>.\<close>

definition requestAnimationFrame :: "PhysicsGlass \<Rightarrow> PhysicsGlass" where
  "requestAnimationFrame s =
     s\<lparr>animationId := Some (rafNext s),
       rafPending := insert (rafNext s) (rafPending s),
       rafNext := rafNext s + 1\<rparr>"

definition cancelAnimationFrame :: "nat \<Rightarrow> PhysicsGlass \<Rightarrow> PhysicsGlass" where
  "cancelAnimationFrame i s = s\<lparr>rafPending := rafPending s - {i}\<rparr>"

definition render :: "PhysicsGlass \<Rightarrow> PhysicsGlass" where
  "render s =
     (if isDestroyed s \<or> webglState s = None then s
      else let s1 = s\<lparr>time := time s + 0.016 * anim_speed (cfg_animation (config s))\<rparr>;
               s2 = s1\<lparr>uniforms := (uniforms s1)\<lparr>uni_time := time s1\<rparr>\<rparr>;
               s3 = gl [GlClear] s2;
               s4 = updateUniforms s3;
               s5 = gl [GlDrawArrays] s4
           in if anim_enabled (cfg_animation (config s5)) then requestAnimationFrame s5 else s5)"

definition startAnimation :: "PhysicsGlass \<Rightarrow> PhysicsGlass" where
  "startAnimation s =
     (let s1 = s\<lparr>config := (config s)\<lparr>cfg_animation := (cfg_animation (config s))\<lparr>anim_enabled := True\<rparr>\<rparr>\<rparr>
      in if \<not> truthy_id (animationId s1) then render s1 else s1)"

definition stopAnimation :: "PhysicsGlass \<Rightarrow> PhysicsGlass" where
  "stopAnimation s =
     (let s1 = s\<lparr>config := (config s)\<lparr>cfg_animation := (cfg_animation (config s))\<lparr>anim_enabled := False\<rparr>\<rparr>\<rparr>
      in case animationId s1 of
           None \<Rightarrow> s1
         | Some i \<Rightarrow>
             if truthy_id (Some i) then (cancelAnimationFrame i s1)\<lparr>animationId := None\<rparr> else s1)"

text \<open>The browser runs a requested frame: the request is consumed and \<open>render\<close> is called.\<close>

definition frame :: "nat \<Rightarrow> PhysicsGlass \<Rightarrow> PhysicsGlass" where
  "frame fid s = (if fid \<in> rafPending s then render (s\<lparr>rafPending := rafPending s - {fid}\<rparr>) else s)"

subsection \<open>Initialisation\<close>

text \<open>
  \<open>setupWebGL\<close>: the error it throws, if any, and the instance as it is then (what was
  assigned before the error stays assigned).
\<close>

definition setupWebGL :: "gl_env \<Rightarrow> PhysicsGlass \<Rightarrow> js_error option \<times> PhysicsGlass" where
  "setupWebGL env s =
     (if \<not> ge_getContext env then
        (Some (PhysicsGlassError ''WebGL is not supported in this browser'' WEBGL_NOT_SUPPORTED), s)
      else case ge_program env of
        Inl e \<Rightarrow> (Some e, s)
      | Inr program \<Rightarrow>
          (let s1 = gl [GlUseProgram program] s
           in case createQuadBuffer env of
                (Inl e, cs) \<Rightarrow> (Some e, gl cs s1)
              | (Inr buffer, cs) \<Rightarrow>
                  (let s2 = (gl cs s1)\<lparr>vertexBuffer := Some buffer\<rparr>;
                       s3 = gl [GlSetup ''enableVertexAttribArray'', GlSetup ''vertexAttribPointer''] s2
                   in case (if truthy_source (cfg_backgroundTexture (config s3)) then
                              (case cfg_backgroundTexture (config s3) of
                                 Url url \<Rightarrow> loadImageTexture env url
                               | Element e \<Rightarrow> createTextureFromElement env)
                            else createDefaultTexture env) of
                        (Inl e, cs') \<Rightarrow> (Some e, gl cs' s3)
                      | (Inr backgroundTexture, cs') \<Rightarrow>
                          (let s4 = gl (cs' @ [GlViewport (canvas_width (canvas s3)) (canvas_height (canvas s3)),
                                              GlSetup ''clearColor'', GlSetup ''enable'',
                                              GlSetup ''blendFunc'']) s3
                           in (None, s4\<lparr>webglState :=
                                          Some \<lparr>ws_program = program,
                                                ws_backgroundTexture = Some backgroundTexture\<rparr>\<rparr>)))))"

definition setupCanvas :: "PhysicsGlass \<Rightarrow> PhysicsGlass" where
  "setupCanvas s =
     (let pixelRatio = cfg_pixelRatio (config s);
          cw = rect_width (canvas s) * pixelRatio;
          ch = rect_height (canvas s) * pixelRatio;
          s1 = s\<lparr>canvas := (canvas s)\<lparr>canvas_width := cw, canvas_height := ch\<rparr>\<rparr>;
          s2 = s1\<lparr>uniforms := (uniforms s1)\<lparr>uni_resolution := (cw, ch)\<rparr>\<rparr>
      in if webglState s2 \<noteq> None then gl [GlViewport cw ch] s2 else s2)"

definition setupEventListeners :: "PhysicsGlass \<Rightarrow> PhysicsGlass" where
  "setupEventListeners s =
     (let s1 = (if mouse_enabled (cfg_mouse (config s)) \<and> mouse_followCursor (cfg_mouse (config s))
                then s\<lparr>listeners := listeners s \<union> {MouseMove, MouseLeave}\<rparr> else s);
          s2 = s1\<lparr>listeners := insert WindowResize (listeners s1)\<rparr>
      in s2\<lparr>listeners := listeners s2 \<union> {ContextLost, ContextRestored}, cleanupContextLoss := True\<rparr>)"

text \<open>
  \<open>init\<close>, run to its end. What it throws rejects a promise nobody holds; what is left
  of a failure is the call of \<open>onError\<close>.
\<close>

definition init :: "gl_env \<Rightarrow> PhysicsGlass \<Rightarrow> PhysicsGlass" where
  "init env s =
     (if \<not> ge_supported env then
        onError (PhysicsGlassError ''WebGL is not supported'' WEBGL_NOT_SUPPORTED) s
      else case setupWebGL env s of
        (Some e, s1) \<Rightarrow> onError e s1
      | (None, s1) \<Rightarrow>
          (let s2 = setupCanvas s1;
               s3 = setupEventListeners s2;
               s4 = (if anim_enabled (cfg_animation (config s3)) then startAnimation s3 else s3)
           in s4\<lparr>callbacks := callbacks s4 @ [OnReady]\<rparr>))"

subsection \<open>Event handlers\<close>

definition handleMouseMove :: "real \<Rightarrow> real \<Rightarrow> PhysicsGlass \<Rightarrow> PhysicsGlass" where
  "handleMouseMove clientX clientY s =
     (if \<not> mouse_followCursor (cfg_mouse (config s)) then s
      else let p = ((clientX - rect_left (canvas s)) / rect_width (canvas s),
                    1 - (clientY - rect_top (canvas s)) / rect_height (canvas s))
           in s\<lparr>mousePos := p, uniforms := (uniforms s)\<lparr>uni_mousePos := p\<rparr>\<rparr>)"

definition handleMouseLeave :: "PhysicsGlass \<Rightarrow> PhysicsGlass" where
  "handleMouseLeave s =
     (let p = (mouse_centerX (cfg_mouse (config s)), mouse_centerY (cfg_mouse (config s)))
      in s\<lparr>mousePos := p, uniforms := (uniforms s)\<lparr>uni_mousePos := p\<rparr>\<rparr>)"

definition handleResize :: "PhysicsGlass \<Rightarrow> PhysicsGlass" where
  "handleResize s = setupCanvas s"

definition handleContextLoss :: "PhysicsGlass \<Rightarrow> PhysicsGlass" where
  "handleContextLoss s = stopAnimation s"

definition handleContextRestored :: "gl_env \<Rightarrow> PhysicsGlass \<Rightarrow> PhysicsGlass" where
  "handleContextRestored env s =
     (case setupWebGL env s of
        (Some e, s1) \<Rightarrow> s1
      | (None, s1) \<Rightarrow> if anim_enabled (cfg_animation (config s1)) then startAnimation s1 else s1)"

definition resize :: "PhysicsGlass \<Rightarrow> PhysicsGlass" where
  "resize s = handleResize s"

subsection \<open>Replacing the background texture\<close>

text \<open>What the promise an \<open>async\<close> method returns settles with.\<close>

datatype promise = Resolved | Rejected js_error

text \<open>
  \<open>setBackgroundTexture\<close> after the texture has been created or has failed to be: the rest
  of the \<open>try\<close> block and the \<open>catch\<close>. The first argument is what
  \<open>loadImageTexture\<close> settled with or \<open>createTextureFromElement\<close> ended with. For a URL the
  instance is the one found when the load settles; by then \<open>destroy\<close> may have cleared
  \<open>webglState\<close>, and reading \<open>this.webglState.backgroundTexture\<close> throws a \<open>TypeError\<close>
  inside the \<open>try\<close>.
\<close>

definition setBackgroundTexture_settled ::
    "(js_error + nat) \<Rightarrow> TextureSource \<Rightarrow> PhysicsGlass \<Rightarrow> promise \<times> PhysicsGlass" where
  "setBackgroundTexture_settled outcome texture s =
     (case outcome of
        Inl e \<Rightarrow> (Resolved, onError e s)
      | Inr newTexture \<Rightarrow>
          (case webglState s of
             None \<Rightarrow> (Resolved, onError TypeError s)
           | Some ws \<Rightarrow>
               (let s1 = (case ws_backgroundTexture ws of
                            None \<Rightarrow> s
                          | Some old \<Rightarrow> gl [GlDeleteTexture old] s)
                in (Resolved,
                    s1\<lparr>webglState := Some (ws\<lparr>ws_backgroundTexture := Some newTexture\<rparr>),
                       config := (config s1)\<lparr>cfg_backgroundTexture := texture\<rparr>\<rparr>))))"

text \<open>
  The first statement of the \<open>try\<close> block: \<open>await loadImageTexture\<close> for a URL,
  \<open>createTextureFromElement\<close> for an element.
\<close>

definition newTexture :: "gl_env \<Rightarrow> TextureSource \<Rightarrow> (js_error + nat) \<times> gl_call list" where
  "newTexture env texture =
     (case texture of
        Url url \<Rightarrow> loadImageTexture env url
      | Element e \<Rightarrow> createTextureFromElement env)"

text \<open>\<open>setBackgroundTexture\<close> with nothing running between its start and its end.\<close>

definition setBackgroundTexture :: "gl_env \<Rightarrow> TextureSource \<Rightarrow> PhysicsGlass \<Rightarrow> promise \<times> PhysicsGlass" where
  "setBackgroundTexture env texture s =
     (if webglState s = None then (Resolved, s)
      else case newTexture env texture of
             (outcome, cs) \<Rightarrow> setBackgroundTexture_settled outcome texture (gl cs s))"

subsection \<open>Disposal\<close>

definition destroy :: "PhysicsGlass \<Rightarrow> PhysicsGlass" where
  "destroy s =
     (let s1 = stopAnimation (s\<lparr>isDestroyed := True\<rparr>);
          s2 = s1\<lparr>listeners := listeners s1 - {MouseMove, MouseLeave, WindowResize}\<rparr>;
          s3 = (if cleanupContextLoss s2
                then s2\<lparr>listeners := listeners s2 - {ContextLost, ContextRestored}\<rparr> else s2);
          s4 = (case webglState s3 of
                  None \<Rightarrow> s3
                | Some ws \<Rightarrow>
                    gl ((case ws_backgroundTexture ws of None \<Rightarrow> [] | Some t \<Rightarrow> [GlDeleteTexture t])
                        @ (case vertexBuffer s3 of None \<Rightarrow> [] | Some b \<Rightarrow> [GlDeleteBuffer b])
                        @ [GlDeleteProgram (ws_program ws)]) s3)
      in s4\<lparr>webglState := None\<rparr>)"

subsection \<open>What can happen to an instance\<close>

text \<open>
  The calls of the public methods, the events the registered listeners receive and the
  animation frames the browser runs. An event whose listener is not registered, and a
  frame that is not pending, leave the instance as it is.
\<close>

datatype event =
    SetShape GlassShape
  | SetSize real
  | SetRefractionIndex real
  | SetDispersion real
  | SetThickness real
  | SetBackgroundPattern BackgroundPattern
  | SetBackgroundTexture gl_env TextureSource
  | SetMaterial material_arg
  | SetMousePosition real real
  | EnableMouseTracking bool
  | StartAnimation
  | StopAnimation
  | SetAnimationSpeed real
  | Resize
  | Destroy
  | MouseMoved real real
  | MouseLeft
  | WindowResized
  | ContextWasLost
  | ContextWasRestored gl_env
  | Frame nat

fun apply_event :: "event \<Rightarrow> PhysicsGlass \<Rightarrow> PhysicsGlass" where
  "apply_event (SetShape shape) s = setShape shape s"
| "apply_event (SetSize x) s = setSize x s"
| "apply_event (SetRefractionIndex x) s = setRefractionIndex x s"
| "apply_event (SetDispersion x) s = setDispersion x s"
| "apply_event (SetThickness x) s = setThickness x s"
| "apply_event (SetBackgroundPattern p) s = setBackgroundPattern p s"
| "apply_event (SetBackgroundTexture env t) s = snd (setBackgroundTexture env t s)"
| "apply_event (SetMaterial m) s = setMaterial m s"
| "apply_event (SetMousePosition x y) s = setMousePosition x y s"
| "apply_event (EnableMouseTracking b) s = enableMouseTracking b s"
| "apply_event StartAnimation s = startAnimation s"
| "apply_event StopAnimation s = stopAnimation s"
| "apply_event (SetAnimationSpeed x) s = setAnimationSpeed x s"
| "apply_event Resize s = resize s"
| "apply_event Destroy s = destroy s"
| "apply_event (MouseMoved x y) s = (if MouseMove \<in> listeners s then handleMouseMove x y s else s)"
| "apply_event MouseLeft s = (if MouseLeave \<in> listeners s then handleMouseLeave s else s)"
| "apply_event WindowResized s = (if WindowResize \<in> listeners s then handleResize s else s)"
| "apply_event ContextWasLost s = (if ContextLost \<in> listeners s then handleContextLoss s else s)"
| "apply_event (ContextWasRestored env) s =
     (if ContextRestored \<in> listeners s then handleContextRestored env s else s)"
| "apply_event (Frame fid) s = frame fid s"

fun run :: "event list \<Rightarrow> PhysicsGlass \<Rightarrow> PhysicsGlass" where
  "run [] s = s"
| "run (e # es) s = run es (apply_event e s)"

section \<open>Concrete inputs\<close>

text \<open>
  A glass of shape lens and size 1/5 centred in the canvas, over the stripes pattern.
\<close>

definition lens_uniforms :: frag_uniforms where
  "lens_uniforms =
     \<lparr>u_time = 0, u_resolution = (800, 600), u_mousePos = (1/2, 1/2), u_refractionIndex = 3/2,
      u_dispersion = 3/100, u_thickness = 3/10, u_glassSize = 1/5,
      u_glassShape = getShapeIndex Lens, u_backgroundPattern = getPatternIndex Stripes,
      u_backgroundTexture = (\<lambda>p. (0, 0, 0, 0))\<rparr>"

text \<open>
  A page with one canvas of 300 by 150 pixels that no selector finds, a configuration
  that leaves every option out, and a browser in which every WebGL call succeeds.
\<close>

definition example_canvas :: HTMLCanvasElement where
  "example_canvas =
     \<lparr>canvas_width = 300, canvas_height = 150, rect_left = 0, rect_top = 0,
      rect_width = 300, rect_height = 150\<rparr>"

definition example_browser :: browser where
  "example_browser = \<lparr>querySelector = (\<lambda>sel. None), devicePixelRatio = 1\<rparr>"

definition no_options :: PhysicsGlassConfig where
  "no_options =
     \<lparr>opt_shape = None, opt_size = None, opt_refractionIndex = None, opt_dispersion = None,
      opt_thickness = None, opt_backgroundPattern = None, opt_backgroundTexture = None,
      opt_mouse = None, opt_animation = None, opt_pixelRatio = None\<rparr>"

definition example_gl :: gl_env where
  "example_gl =
     \<lparr>ge_supported = True, ge_getContext = True, ge_program = Inr 1, ge_createBuffer = Some 2,
      ge_createTexture = Some 3, ge_imageLoads = True\<rparr>"

text \<open>The instance \<open>new PhysicsGlass(canvas)\<close> leaves when its constructor returns.\<close>

definition default_instance :: PhysicsGlass where
  "default_instance =
     \<lparr>canvas = example_canvas,
      config = DEFAULT_CONFIG example_browser,
      webglState = None,
      animationId = None,
      isDestroyed = False,
      time = 0,
      mousePos = (0.5, 0.5),
      uniforms =
        \<lparr>uni_time = 0, uni_resolution = (300, 150), uni_mousePos = (0.5, 0.5),
         uni_refractionIndex = 1.5, uni_dispersion = 0.03, uni_thickness = 0.3,
         uni_glassSize = 0.15, uni_glassShape = 0, uni_backgroundPattern = 0\<rparr>,
      cleanupContextLoss = False,
      vertexBuffer = None,
      glCalls = [],
      listeners = {},
      rafPending = {},
      rafNext = 1,
      callbacks = []\<rparr>"

text \<open>
  The configuration \<open>{ animation: { enabled: true, speed: -1, surfaceRipples: true } }\<close>
  and the instance its constructor leaves.
\<close>

definition reversed_options :: PhysicsGlassConfig where
  "reversed_options =
     no_options\<lparr>opt_animation :=
       Some \<lparr>anim_enabled = True, anim_speed = - 1, anim_surfaceRipples = True\<rparr>\<rparr>"

definition reversed_instance :: PhysicsGlass where
  "reversed_instance =
     default_instance\<lparr>config := (config default_instance)\<lparr>cfg_animation :=
       \<lparr>anim_enabled = True, anim_speed = - 1, anim_surfaceRipples = True\<rparr>\<rparr>\<rparr>"

section \<open>Auxiliary predicates\<close>

text \<open>
  An instance on which \<open>destroy\<close> has nothing left to do: marked destroyed, no WebGL
  state, animation off with no frame requested, none of its listeners registered.
\<close>

definition disposed :: "PhysicsGlass \<Rightarrow> bool" where
  "disposed s =
     (isDestroyed s \<and> webglState s = None \<and> \<not> anim_enabled (cfg_animation (config s))
      \<and> \<not> truthy_id (animationId s)
      \<and> listeners s \<inter> {MouseMove, MouseLeave, WindowResize} = {}
      \<and> (if cleanupContextLoss s then listeners s \<inter> {ContextLost, ContextRestored} = {} else True))"

text \<open>
  The part of an instance the animation acts on: the time accumulator, the animation
  options, the frames pending, \<open>animationId\<close> and the next frame identifier.
\<close>

definition clock :: "PhysicsGlass \<Rightarrow> real \<times> AnimationConfig \<times> nat set \<times> nat option \<times> nat" where
  "clock s = (time s, cfg_animation (config s), rafPending s, animationId s, rafNext s)"

text \<open>
  Every pending frame is the one \<open>animationId\<close> names, and frame identifiers are positive
  (as \<open>requestAnimationFrame\<close> returns them).
\<close>

definition frames_tracked :: "PhysicsGlass \<Rightarrow> bool" where
  "frames_tracked s =
     (rafPending s \<subseteq> set_option (animationId s) \<and> 0 \<notin> rafPending s \<and> 0 < rafNext s)"

text \<open>Animation is stopped: the flag is off and no frame is pending.\<close>

definition paused :: "PhysicsGlass \<Rightarrow> bool" where
  "paused s = (\<not> anim_enabled (cfg_animation (config s)) \<and> rafPending s = {})"

section \<open>Properties of the shader\<close>

subsection \<open>Lengths and shape indices\<close>

lemma getShapeIndex_simps:
  "getShapeIndex Sphere = 0" "getShapeIndex Cylinder = 1" "getShapeIndex Lens = 2"
  "getShapeIndex Prism = 3" "getShapeIndex Flat = 4"
  by (simp_all add: getShapeIndex_def indexOf_def)

lemma length2_nonneg: "0 \<le> length2 v"
  by (cases v) (simp add: length2_def)

lemma length2_square: "length2 (a, b) * length2 (a, b) = a * a + b * b"
  by (simp add: length2_def)

lemma length2_x_axis: "length2 (a, 0) = \<bar>a\<bar>"
  by (simp add: length2_def)

lemma length2_gt_square:
  assumes "0 \<le> r" and "r < length2 (a, b)"
  shows "r * r < a * a + b * b"
proof -
  have "r * r < length2 (a, b) * length2 (a, b)"
    using assms by (intro mult_strict_mono') (auto simp: length2_nonneg)
  then show ?thesis by (simp add: length2_square)
qed

subsection \<open>Where the intersector reports no hit\<close>

text \<open>
  For the ray of a pixel the discriminant of \<open>intersectSphere\<close> is \<open>radius\<^sup>2 - d\<^sup>2\<close>,
  with \<open>d\<close> the distance of the pixel from the centre.
\<close>

lemma intersectSphere_miss:
  assumes "0 \<le> r" and "r < length2 (sub2 uv m)"
  shows "intersectSphere (fst uv, snd uv, 2) (0, 0, - 1) (fst m, snd m, 0) r = (- 1, - 1)"
proof -
  obtain a b where uv: "uv = (a, b)" by (cases uv)
  obtain c d where m: "m = (c, d)" by (cases m)
  have "r * r < (a - c) * (a - c) + (b - d) * (b - d)"
    using assms length2_gt_square [of r "a - c" "b - d"] by (simp add: uv m)
  then show ?thesis
    by (simp add: intersectSphere_def uv m)
qed

lemma trace_sphere_miss:
  "shapeType < 0.5 \<Longrightarrow> 0 \<le> glassSize \<Longrightarrow> glassSize < length2 (sub2 uv m) \<Longrightarrow>
   traceGlassShape t uv m shapeType glassSize = (0, 0, 0, 0)"
  by (simp add: traceGlassShape_def intersectSphere_miss)

lemma trace_lens_miss:
  "\<not> shapeType < 1.5 \<Longrightarrow> shapeType < 2.5 \<Longrightarrow> 0 \<le> glassSize \<Longrightarrow>
   glassSize * 1.5 < length2 (sub2 uv m) \<Longrightarrow>
   traceGlassShape t uv m shapeType glassSize = (0, 0, 0, 0)"
  by (simp add: traceGlassShape_def intersectSphere_miss)

lemma trace_prism_miss:
  "\<not> shapeType < 2.5 \<Longrightarrow> shapeType < 3.5 \<Longrightarrow> glassSize < length2 (sub2 uv m) \<Longrightarrow>
   traceGlassShape t uv m shapeType glassSize = (0, 0, 0, 0)"
  by (simp add: traceGlassShape_def)

lemma trace_flat_miss:
  "\<not> shapeType < 3.5 \<Longrightarrow> glassSize < length2 (sub2 uv m) \<Longrightarrow>
   traceGlassShape t uv m shapeType glassSize = (0, 0, 0, 0)"
  by (simp add: traceGlassShape_def)

lemma main_no_hit:
  "traceGlassShape (u_time u) uv (u_mousePos u) (u_glassShape u) (u_glassSize u) = (0, 0, 0, 0) \<Longrightarrow>
   main u uv = Some (0, 0, 0, 0)"
  by (simp add: main_def)

subsection \<open>Where it reports a hit\<close>

lemma w4_perturbed: "w4 (perturbed t uv n1 n2) = 1"
  by (simp add: perturbed_def Let_def)

lemma refract3D_defined: "refract3D i n eta \<noteq> None"
  by (simp add: refract3D_def Let_def glsl_sqrt_def del: not_None_eq)

lemma refractedColor_defined: "refractedColor u uv n \<noteq> None"
proof -
  obtain r where r: "refractedR u n = Some r"
    using refract3D_defined [of "neg3 viewDir" n "redEta u"] by (auto simp: refractedR_def)
  obtain g where g: "refractedG u n = Some g"
    using refract3D_defined [of "neg3 viewDir" n "greenEta u"] by (auto simp: refractedG_def)
  obtain b where b: "refractedB u n = Some b"
    using refract3D_defined [of "neg3 viewDir" n "blueEta u"] by (auto simp: refractedB_def)
  show ?thesis
    by (simp add: refractedColor_def bgColor_def sampleCoord_def offsetR_def offsetG_def offsetB_def r g b)
qed

text \<open>On a hit the alpha channel of the pixel is \<open>glassAlpha\<close>.\<close>

lemma main_hit_alpha:
  assumes "w4 (traceGlassShape (u_time u) uv (u_mousePos u) (u_glassShape u) (u_glassSize u)) = 1"
  shows "map_option w4 (main u uv) = Some (glassAlpha u uv)"
proof -
  obtain c where c: "refractedColor u uv
      (xyz4 (traceGlassShape (u_time u) uv (u_mousePos u) (u_glassShape u) (u_glassSize u))) = Some c"
    using refractedColor_defined by blast
  show ?thesis
    using assms by (simp add: main_def Let_def c)
qed

text \<open>
  The cylinder branch never returns early: with \<open>rayDir.xy = (0, 0)\<close> the discriminant is 0
  and \<open>t1\<close> is \<open>0 / 0\<close>, which is not below 0 (see \<open>intersectCylinder\<close>).
\<close>

lemma cylinder_always_hit: "w4 (traceGlassShape t uv m 1 glassSize) = 1"
  by (simp add: traceGlassShape_def intersectCylinder_def Let_def w4_perturbed)

lemma sqrt_small: "sqrt (459 / 10000) \<le> 2"
  by (rule real_le_lsqrt) simp_all

lemma lens_intersect_example:
  "intersectSphere (71/100, 1/2, 2) (0, 0, - 1) (1/2, 1/2, 0) (3/10) =
     (2 - sqrt (459/10000), 2 + sqrt (459/10000))"
  by (simp add: intersectSphere_def Let_def)

lemma lens_hit_example: "w4 (traceGlassShape 0 (71/100, 1/2) (1/2, 1/2) 2 (1/5)) = 1"
  using sqrt_small
  by (simp add: traceGlassShape_def lens_intersect_example Let_def w4_perturbed)

lemma lens_alpha_example: "glassAlpha lens_uniforms (71/100, 1/2) = 1/16"
  by (simp add: glassAlpha_def lens_uniforms_def length2_x_axis smoothstep_def clamp_def Let_def)

subsection \<open>The distortion scale\<close>

text \<open>
  The test \<open>u_glassShape < 2.5\<close> holds for the indices 0, 1 and 2: sphere, cylinder and
  lens get the curvature factor, prism and flat do not.
\<close>

lemma distortionScale_by_shape:
  "distortionScale t (getShapeIndex shape) uv m =
     (if shape = Sphere \<or> shape = Cylinder \<or> shape = Lens
      then t * 0.3 * (1 + length2 (sub2 uv m) * length2 (sub2 uv m) * 2)
      else t * 0.3)"
  by (cases shape) (simp_all add: distortionScale_def getShapeIndex_simps Let_def)

text \<open>
  Claim C1: the distortion scale is \<open>thickness * 0.3\<close>, multiplied by the curvature
  factor \<open>1 + distFromCenter\<^sup>2 * 2\<close> for sphere and lens only. The shader's comment says so
  too (``For sphere and lens''), but its test \<open>u_glassShape < 2.5\<close> also holds for the
  cylinder, whose index is 1. For a cylinder of thickness 3/10, at the pixel (6/10, 1/2) of
  a glass centred at (1/2, 1/2), the pixel is rendered and the distortion scale is
  \<open>0.09 * 1.02 = 459/5000\<close>, not \<open>0.09\<close>.
\<close>

theorem cylinder_distortionScale_has_curvature:
  "distortionScale (3/10) (getShapeIndex Cylinder) (6/10, 1/2) (1/2, 1/2) = 459/5000
   \<and> distortionScale (3/10) (getShapeIndex Cylinder) (6/10, 1/2) (1/2, 1/2) \<noteq> 3/10 * 0.3
   \<and> w4 (traceGlassShape 0 (6/10, 1/2) (1/2, 1/2) (getShapeIndex Cylinder) (15/100)) = 1"
proof -
  have "distortionScale (3/10) (getShapeIndex Cylinder) (6/10, 1/2) (1/2, 1/2) = 459/5000"
    by (simp add: distortionScale_by_shape length2_x_axis)
  then show ?thesis
    by (simp add: cylinder_always_hit getShapeIndex_simps)
qed

subsection \<open>Pixels outside the glass\<close>

text \<open>
  Claim C2, as stated, fails for the lens: the lens is intersected as a sphere of radius
  \<open>glassSize * lensRatio\<close> with \<open>lensRatio = 1.5\<close>. For a lens of size 1/5 centred at
  (1/2, 1/2), the pixel (71/100, 1/2) is at distance 21/100 > 1/5 of the centre; the
  intersector reports a hit there and the pixel is written with alpha 1/16.
\<close>

theorem lens_hit_beyond_glassSize:
  "1/5 < length2 (sub2 (71/100, 1/2) (1/2, 1/2))
   \<and> w4 (traceGlassShape 0 (71/100, 1/2) (1/2, 1/2) (getShapeIndex Lens) (1/5)) = 1
   \<and> map_option w4 (main lens_uniforms (71/100, 1/2)) = Some (1/16)"
proof -
  have "w4 (traceGlassShape (u_time lens_uniforms) (71/100, 1/2) (u_mousePos lens_uniforms)
          (u_glassShape lens_uniforms) (u_glassSize lens_uniforms)) = 1"
    using lens_hit_example by (simp add: lens_uniforms_def getShapeIndex_simps)
  then have "map_option w4 (main lens_uniforms (71/100, 1/2)) = Some (1/16)"
    using main_hit_alpha [of lens_uniforms "(71/100, 1/2)"] by (simp add: lens_alpha_example)
  then show ?thesis
    using lens_hit_example by (simp add: getShapeIndex_simps length2_x_axis)
qed

text \<open>
  Claim C2, amended: for a glass size that is not negative, a pixel whose distance from
  the centre exceeds the size (for sphere, prism and flat) or 1.5 times the size (for
  lens) gets no hit from \<open>traceGlassShape\<close> and is written as \<open>vec4(0.0)\<close>.
\<close>

theorem no_hit_outside_footprint:
  assumes "0 \<le> u_glassSize u"
    and "u_glassShape u = getShapeIndex shape"
    and "shape \<noteq> Cylinder"
    and "(if shape = Lens then u_glassSize u * 1.5 else u_glassSize u)
           < length2 (sub2 uv (u_mousePos u))"
  shows "traceGlassShape (u_time u) uv (u_mousePos u) (u_glassShape u) (u_glassSize u) = (0, 0, 0, 0)
         \<and> main u uv = Some (0, 0, 0, 0)"
proof -
  have "traceGlassShape (u_time u) uv (u_mousePos u) (u_glassShape u) (u_glassSize u) = (0, 0, 0, 0)"
  proof (cases shape)
    case Sphere
    then show ?thesis using assms by (simp add: getShapeIndex_simps trace_sphere_miss)
  next
    case Cylinder
    then show ?thesis using assms by simp
  next
    case Lens
    then show ?thesis using assms by (simp add: getShapeIndex_simps trace_lens_miss)
  next
    case Prism
    then show ?thesis using assms by (simp add: getShapeIndex_simps trace_prism_miss)
  next
    case Flat
    then show ?thesis using assms by (simp add: getShapeIndex_simps trace_flat_miss)
  qed
  then show ?thesis by (simp add: main_no_hit)
qed

theorem no_hit_outside_footprint_witness:
  "traceGlassShape 0 (9/10, 1/2) (1/2, 1/2) (getShapeIndex Sphere) (1/5) = (0, 0, 0, 0)
   \<and> main (lens_uniforms\<lparr>u_glassShape := getShapeIndex Sphere\<rparr>) (9/10, 1/2) = Some (0, 0, 0, 0)
   \<and> main (lens_uniforms\<lparr>u_glassShape := getShapeIndex Prism\<rparr>) (9/10, 1/2) = Some (0, 0, 0, 0)
   \<and> main (lens_uniforms\<lparr>u_glassShape := getShapeIndex Flat\<rparr>) (9/10, 1/2) = Some (0, 0, 0, 0)
   \<and> main lens_uniforms (9/10, 1/2) = Some (0, 0, 0, 0)"
  using no_hit_outside_footprint [of "lens_uniforms\<lparr>u_glassShape := getShapeIndex Sphere\<rparr>" Sphere "(9/10, 1/2)"]
    no_hit_outside_footprint [of "lens_uniforms\<lparr>u_glassShape := getShapeIndex Prism\<rparr>" Prism "(9/10, 1/2)"]
    no_hit_outside_footprint [of "lens_uniforms\<lparr>u_glassShape := getShapeIndex Flat\<rparr>" Flat "(9/10, 1/2)"]
    no_hit_outside_footprint [of lens_uniforms Lens "(9/10, 1/2)"]
  by (simp add: lens_uniforms_def length2_x_axis)

subsection \<open>Refraction\<close>

text \<open>
  Claim C4: with \<open>cosI = dot(-incident, normal)\<close>, when \<open>eta\<^sup>2 * (1 - cosI\<^sup>2) \<ge> 1\<close>
  \<open>refract3D\<close> returns the mirror reflection \<open>incident - 2 * dot(normal, incident) * normal\<close>;
  otherwise it returns \<open>eta * incident + (eta * cosI - cosT) * normal\<close>; and it never takes
  the square root of a negative number (the result is never \<open>None\<close>).
\<close>

theorem refract3D_total_internal_reflection:
  "refract3D incident normal eta =
     (let cosI = dot3 (neg3 incident) normal;
          sinT2 = eta * eta * (1 - cosI * cosI)
      in if sinT2 \<ge> 1 then Some (reflect incident normal)
         else Some (add3 (scale3 incident eta) (scale3 normal (eta * cosI - sqrt (1 - sinT2)))))
   \<and> refract3D incident normal eta \<noteq> None
   \<and> reflect incident normal = sub3 incident (scale3 normal (2 * dot3 normal incident))"
  by (simp add: refract3D_def Let_def glsl_sqrt_def reflect_def del: not_None_eq)

text \<open>
  A ray along the view axis: total internal reflection on a normal across the axis with
  \<open>eta = 2\<close>; refraction on the normal along the axis and on a tilted one.
\<close>

theorem refract3D_total_internal_reflection_witness:
  "refract3D (0, 0, - 1) (1, 0, 0) 2 = Some (0, 0, - 1)
   \<and> reflect (0, 0, - 1) (1, 0, 0) = (0, 0, - 1)
   \<and> refract3D (0, 0, - 1) (0, 0, 1) (2/3) = Some (0, 0, - 1)
   \<and> refract3D (0, 0, - 1) (3/5, 0, 4/5) (1/2) =
       Some (3/5 * (2/5 - sqrt (91/100)), 0, - 1/2 + 4/5 * (2/5 - sqrt (91/100)))"
  using refract3D_total_internal_reflection [of "(0, 0, - 1)" "(1, 0, 0)" 2]
    refract3D_total_internal_reflection [of "(0, 0, - 1)" "(0, 0, 1)" "2/3"]
    refract3D_total_internal_reflection [of "(0, 0, - 1)" "(3/5, 0, 4/5)" "1/2"]
  by (simp add: Let_def reflect_def)

subsection \<open>Dispersion\<close>

text \<open>
  Claim C5: when the dispersion is 0 the three eta values are all \<open>1 / refractionIndex\<close>,
  the three offsets are equal, the three channels sample the background at the same
  coordinate, and the refracted colour is the colour of the background there.
\<close>

theorem zero_dispersion_no_fringing:
  assumes "u_dispersion u = 0"
  shows "redEta u = 1 / u_refractionIndex u \<and> greenEta u = 1 / u_refractionIndex u
         \<and> blueEta u = 1 / u_refractionIndex u
         \<and> offsetR u uv normal = offsetG u uv normal
         \<and> offsetB u uv normal = offsetG u uv normal
         \<and> sampleCoord uv (offsetR u uv normal) = sampleCoord uv (offsetG u uv normal)
         \<and> sampleCoord uv (offsetB u uv normal) = sampleCoord uv (offsetG u uv normal)
         \<and> refractedColor u uv normal = bgColor u (sampleCoord uv (offsetG u uv normal))"
proof -
  have eta: "redEta u = greenEta u" "blueEta u = greenEta u"
    using assms by (simp_all add: redEta_def greenEta_def blueEta_def)
  have off: "offsetR u uv normal = offsetG u uv normal" "offsetB u uv normal = offsetG u uv normal"
    by (simp_all add: offsetR_def offsetG_def offsetB_def refractedR_def refractedG_def
          refractedB_def eta)
  have "refractedColor u uv normal = bgColor u (sampleCoord uv (offsetG u uv normal))"
    by (cases "bgColor u (sampleCoord uv (offsetG u uv normal))")
       (simp_all add: refractedColor_def off)
  then show ?thesis
    using assms by (simp add: off redEta_def greenEta_def blueEta_def)
qed

theorem zero_dispersion_no_fringing_witness:
  "u_dispersion (lens_uniforms\<lparr>u_dispersion := 0\<rparr>) = 0
   \<and> redEta (lens_uniforms\<lparr>u_dispersion := 0\<rparr>) = 2/3
   \<and> greenEta (lens_uniforms\<lparr>u_dispersion := 0\<rparr>) = 2/3
   \<and> blueEta (lens_uniforms\<lparr>u_dispersion := 0\<rparr>) = 2/3
   \<and> offsetR (lens_uniforms\<lparr>u_dispersion := 0\<rparr>) (3/5, 1/2) (0, 0, 1) = Some (0, 0)
   \<and> offsetB (lens_uniforms\<lparr>u_dispersion := 0\<rparr>) (3/5, 1/2) (0, 0, 1) = Some (0, 0)
   \<and> refractedColor (lens_uniforms\<lparr>u_dispersion := 0\<rparr>) (3/5, 1/2) (0, 0, 1) =
       bgColor (lens_uniforms\<lparr>u_dispersion := 0\<rparr>) (Some (3/5, 1/2))"
  using zero_dispersion_no_fringing [of "lens_uniforms\<lparr>u_dispersion := 0\<rparr>" "(3/5, 1/2)" "(0, 0, 1)"]
  by (simp add: lens_uniforms_def offsetG_def refractedG_def greenEta_def viewDir_def refract3D_def
        glsl_sqrt_def channelOffset_def sampleCoord_def Let_def)

section \<open>Properties of the class\<close>

subsection \<open>Construction\<close>

lemma getPatternIndex_simps:
  "getPatternIndex Stripes = 0" "getPatternIndex Grid = 1" "getPatternIndex Circles = 2"
  "getPatternIndex Texture = 3"
  by (simp_all add: getPatternIndex_def indexOf_def)

lemma constructor_default:
  "constructor example_browser (CanvasElement example_canvas) no_options = Inr default_instance"
  by (simp add: constructor_def merge_config_def no_options_def validateConfig_def DEFAULT_CONFIG_def
        default_instance_def example_canvas_def example_browser_def getShapeIndex_simps
        getPatternIndex_simps Let_def)

lemma constructor_reversed:
  "constructor example_browser (CanvasElement example_canvas) reversed_options = Inr reversed_instance"
  by (simp add: constructor_def merge_config_def no_options_def validateConfig_def DEFAULT_CONFIG_def
        default_instance_def example_canvas_def example_browser_def getShapeIndex_simps
        getPatternIndex_simps Let_def reversed_options_def reversed_instance_def)

lemma merge_config_fields:
  "cfg_size (merge_config d c) = (case opt_size c of None \<Rightarrow> cfg_size d | Some v \<Rightarrow> v)"
  "cfg_refractionIndex (merge_config d c) =
     (case opt_refractionIndex c of None \<Rightarrow> cfg_refractionIndex d | Some v \<Rightarrow> v)"
  "cfg_dispersion (merge_config d c) = (case opt_dispersion c of None \<Rightarrow> cfg_dispersion d | Some v \<Rightarrow> v)"
  "cfg_thickness (merge_config d c) = (case opt_thickness c of None \<Rightarrow> cfg_thickness d | Some v \<Rightarrow> v)"
  "cfg_animation (merge_config d c) = (case opt_animation c of None \<Rightarrow> cfg_animation d | Some v \<Rightarrow> v)"
  by (simp_all add: merge_config_def)

lemma DEFAULT_CONFIG_fields:
  "cfg_size (DEFAULT_CONFIG w) = 0.15" "cfg_refractionIndex (DEFAULT_CONFIG w) = 1.5"
  "cfg_dispersion (DEFAULT_CONFIG w) = 0.03" "cfg_thickness (DEFAULT_CONFIG w) = 0.3"
  "cfg_animation (DEFAULT_CONFIG w) =
     \<lparr>anim_enabled = True, anim_speed = 1, anim_surfaceRipples = True\<rparr>"
  by (simp_all add: DEFAULT_CONFIG_def)

lemma constructor_Inr:
  assumes "constructor w cv cfg = Inr s"
  shows "config s = merge_config (DEFAULT_CONFIG w) cfg"
    and "validateConfig (config s) = None"
    and "uni_glassSize (uniforms s) = cfg_size (config s)"
    and "uni_refractionIndex (uniforms s) = cfg_refractionIndex (config s)"
    and "uni_dispersion (uniforms s) = cfg_dispersion (config s)"
    and "uni_thickness (uniforms s) = cfg_thickness (config s)"
  using assms
  by (auto simp: constructor_def Let_def split: canvas_arg.splits option.splits sum.splits)

lemma constructor_isl:
  "isl (constructor w cv cfg) \<longleftrightarrow>
     (case cv of CanvasSelector sel \<Rightarrow> querySelector w sel = None | CanvasElement el \<Rightarrow> False)
     \<or> validateConfig (merge_config (DEFAULT_CONFIG w) cfg) \<noteq> None"
  by (auto simp: constructor_def Let_def split: canvas_arg.splits option.splits sum.splits)

lemma validateConfig_None:
  "validateConfig c = None \<longleftrightarrow>
     0 < cfg_size c \<and> cfg_size c \<le> 1 \<and> 1 \<le> cfg_refractionIndex c \<and> cfg_refractionIndex c \<le> 3"
  by (auto simp: validateConfig_def)

subsection \<open>Size and refraction index\<close>

text \<open>
  Claim C8: \<open>setSize(-1)\<close> and \<open>setSize(0.01)\<close> are the same state transformer, and both
  leave 0.01 in the configuration and in the uniforms; so are \<open>setRefractionIndex(10)\<close>
  and \<open>setRefractionIndex(3)\<close>, with 3.
\<close>

theorem setSize_setRefractionIndex_clamp:
  "setSize (- 1) s = setSize 0.01 s
   \<and> cfg_size (config (setSize (- 1) s)) = 0.01
   \<and> uni_glassSize (uniforms (setSize (- 1) s)) = 0.01
   \<and> setRefractionIndex 10 s = setRefractionIndex 3 s
   \<and> cfg_refractionIndex (config (setRefractionIndex 10 s)) = 3
   \<and> uni_refractionIndex (uniforms (setRefractionIndex 10 s)) = 3"
  by (simp add: setSize_def setRefractionIndex_def Let_def)

text \<open>
  Claim C3, as stated, fails at construction: \<open>validateConfig\<close> throws on a size outside
  \<open>(0, 1]\<close> and on a refraction index outside \<open>[1, 3]\<close>. A size of 2 and a refraction
  index of 10 are rejected with \<open>INVALID_CONFIGURATION\<close>, not clamped.
\<close>

theorem constructor_rejects_out_of_range:
  "constructor example_browser (CanvasElement example_canvas) (no_options\<lparr>opt_size := Some 2\<rparr>) =
     Inl (PhysicsGlassError ''Glass size must be between 0 and 1'' INVALID_CONFIGURATION)
   \<and> constructor example_browser (CanvasElement example_canvas)
        (no_options\<lparr>opt_refractionIndex := Some 10\<rparr>) =
     Inl (PhysicsGlassError ''Refraction index must be between 1 and 3'' INVALID_CONFIGURATION)"
  by (simp add: constructor_def merge_config_def no_options_def validateConfig_def DEFAULT_CONFIG_def
        Let_def)

text \<open>
  Claim C3, amended: \<open>setSize\<close> and \<open>setRefractionIndex\<close> clamp their argument (the size
  into \<open>[0.01, 1]\<close>, the index into \<open>[1, 3]\<close>), store it in the configuration and in the
  uniforms, and never throw. The constructor clamps nothing: it throws
  \<open>INVALID_CONFIGURATION\<close> for a size outside \<open>(0, 1]\<close> and for a refraction index outside
  \<open>[1, 3]\<close>, and stores a value inside its range as it is.
\<close>

theorem setters_clamp_constructor_validates:
  "(cfg_size (config (setSize x s)) = max 0.01 (min 1 x)
     \<and> 0.01 \<le> cfg_size (config (setSize x s)) \<and> cfg_size (config (setSize x s)) \<le> 1
     \<and> uni_glassSize (uniforms (setSize x s)) = cfg_size (config (setSize x s)))
   \<and> (cfg_refractionIndex (config (setRefractionIndex y s)) = max 1 (min 3 y)
     \<and> 1 \<le> cfg_refractionIndex (config (setRefractionIndex y s))
     \<and> cfg_refractionIndex (config (setRefractionIndex y s)) \<le> 3
     \<and> uni_refractionIndex (uniforms (setRefractionIndex y s)) =
         cfg_refractionIndex (config (setRefractionIndex y s)))
   \<and> (xa \<le> 0 \<or> 1 < xa \<longrightarrow>
        constructor w (CanvasElement el) (cfg\<lparr>opt_size := Some xa\<rparr>) =
          Inl (PhysicsGlassError ''Glass size must be between 0 and 1'' INVALID_CONFIGURATION))
   \<and> (0 < xb \<and> xb \<le> 1 \<and> (yb < 1 \<or> 3 < yb) \<longrightarrow>
        constructor w (CanvasElement el) (cfg\<lparr>opt_size := Some xb, opt_refractionIndex := Some yb\<rparr>) =
          Inl (PhysicsGlassError ''Refraction index must be between 1 and 3'' INVALID_CONFIGURATION))
   \<and> (0 < xc \<and> xc \<le> 1 \<and> 1 \<le> yc \<and> yc \<le> 3 \<longrightarrow>
        \<not> isl (constructor w (CanvasElement el) (cfg\<lparr>opt_size := Some xc, opt_refractionIndex := Some yc\<rparr>))
        \<and> cfg_size (config (projr (constructor w (CanvasElement el)
               (cfg\<lparr>opt_size := Some xc, opt_refractionIndex := Some yc\<rparr>)))) = xc
        \<and> uni_glassSize (uniforms (projr (constructor w (CanvasElement el)
               (cfg\<lparr>opt_size := Some xc, opt_refractionIndex := Some yc\<rparr>)))) = xc
        \<and> cfg_refractionIndex (config (projr (constructor w (CanvasElement el)
               (cfg\<lparr>opt_size := Some xc, opt_refractionIndex := Some yc\<rparr>)))) = yc
        \<and> uni_refractionIndex (uniforms (projr (constructor w (CanvasElement el)
               (cfg\<lparr>opt_size := Some xc, opt_refractionIndex := Some yc\<rparr>)))) = yc)"
proof -
  have setters: "cfg_size (config (setSize x s)) = max 0.01 (min 1 x)"
    "uni_glassSize (uniforms (setSize x s)) = max 0.01 (min 1 x)"
    "cfg_refractionIndex (config (setRefractionIndex y s)) = max 1 (min 3 y)"
    "uni_refractionIndex (uniforms (setRefractionIndex y s)) = max 1 (min 3 y)"
    by (simp_all add: setSize_def setRefractionIndex_def Let_def)
  have rej_size: "constructor w (CanvasElement el) (cfg\<lparr>opt_size := Some xa\<rparr>) =
          Inl (PhysicsGlassError ''Glass size must be between 0 and 1'' INVALID_CONFIGURATION)"
    if "xa \<le> 0 \<or> 1 < xa"
    using that by (auto simp: constructor_def Let_def validateConfig_def merge_config_fields)
  have rej_index: "constructor w (CanvasElement el) (cfg\<lparr>opt_size := Some xb, opt_refractionIndex := Some yb\<rparr>) =
          Inl (PhysicsGlassError ''Refraction index must be between 1 and 3'' INVALID_CONFIGURATION)"
    if "0 < xb \<and> xb \<le> 1 \<and> (yb < 1 \<or> 3 < yb)"
    using that by (auto simp: constructor_def Let_def validateConfig_def merge_config_fields)
  have acc: "\<exists>s'. constructor w (CanvasElement el) (cfg\<lparr>opt_size := Some xc, opt_refractionIndex := Some yc\<rparr>) = Inr s'
      \<and> cfg_size (config s') = xc \<and> uni_glassSize (uniforms s') = xc
      \<and> cfg_refractionIndex (config s') = yc \<and> uni_refractionIndex (uniforms s') = yc"
    if "0 < xc \<and> xc \<le> 1 \<and> 1 \<le> yc \<and> yc \<le> 3"
    using that by (auto simp: constructor_def Let_def validateConfig_def merge_config_fields)
  show ?thesis
    using rej_size rej_index acc by (auto simp: setters)
qed

theorem setters_clamp_constructor_validates_witness:
  "cfg_size (config (setSize (- 1) default_instance)) = 1/100
   \<and> uni_glassSize (uniforms (setSize (- 1) default_instance)) = 1/100
   \<and> cfg_refractionIndex (config (setRefractionIndex 10 default_instance)) = 3
   \<and> uni_refractionIndex (uniforms (setRefractionIndex 10 default_instance)) = 3
   \<and> constructor example_browser (CanvasElement example_canvas) (no_options\<lparr>opt_size := Some 2\<rparr>) =
        Inl (PhysicsGlassError ''Glass size must be between 0 and 1'' INVALID_CONFIGURATION)
   \<and> constructor example_browser (CanvasElement example_canvas)
        (no_options\<lparr>opt_size := Some (1/2), opt_refractionIndex := Some 10\<rparr>) =
        Inl (PhysicsGlassError ''Refraction index must be between 1 and 3'' INVALID_CONFIGURATION)
   \<and> \<not> isl (constructor example_browser (CanvasElement example_canvas)
        (no_options\<lparr>opt_size := Some (1/5), opt_refractionIndex := Some (3/2)\<rparr>))
   \<and> uni_glassSize (uniforms (projr (constructor example_browser (CanvasElement example_canvas)
        (no_options\<lparr>opt_size := Some (1/5), opt_refractionIndex := Some (3/2)\<rparr>)))) = 1/5
   \<and> uni_refractionIndex (uniforms (projr (constructor example_browser (CanvasElement example_canvas)
        (no_options\<lparr>opt_size := Some (1/5), opt_refractionIndex := Some (3/2)\<rparr>)))) = 3/2"
  using setters_clamp_constructor_validates [of "- 1" default_instance 10 2 example_browser example_canvas no_options
      "1/2" 10 "1/5" "3/2"]
  by simp

subsection \<open>Dispersion and thickness\<close>

text \<open>
  Claim C10: the constructor neither clamps nor rejects dispersion and thickness. When it
  returns an instance, the uniforms hold the dispersion and the thickness of the
  configuration (the value given, or the default 0.03 and 0.3); whether it returns one
  does not depend on the two values; \<open>setDispersion\<close> and \<open>setThickness\<close> clamp to
  \<open>[0, 0.2]\<close> and \<open>[0.1, 2]\<close>.
\<close>

theorem constructor_keeps_dispersion_and_thickness:
  "(constructor w cv cfg = Inr s \<longrightarrow>
      uni_dispersion (uniforms s) = cfg_dispersion (config s)
      \<and> uni_thickness (uniforms s) = cfg_thickness (config s)
      \<and> cfg_dispersion (config s) = (case opt_dispersion cfg of None \<Rightarrow> 0.03 | Some d \<Rightarrow> d)
      \<and> cfg_thickness (config s) = (case opt_thickness cfg of None \<Rightarrow> 0.3 | Some t \<Rightarrow> t))
   \<and> isl (constructor w cv (cfg\<lparr>opt_dispersion := od, opt_thickness := ot\<rparr>)) = isl (constructor w cv cfg)
   \<and> cfg_dispersion (config (setDispersion x s')) = max 0 (min 0.2 x)
   \<and> uni_dispersion (uniforms (setDispersion x s')) = max 0 (min 0.2 x)
   \<and> 0 \<le> uni_dispersion (uniforms (setDispersion x s'))
   \<and> uni_dispersion (uniforms (setDispersion x s')) \<le> 0.2
   \<and> cfg_thickness (config (setThickness y s')) = max 0.1 (min 2 y)
   \<and> uni_thickness (uniforms (setThickness y s')) = max 0.1 (min 2 y)
   \<and> 0.1 \<le> uni_thickness (uniforms (setThickness y s'))
   \<and> uni_thickness (uniforms (setThickness y s')) \<le> 2"
proof -
  have a: "uni_dispersion (uniforms s) = cfg_dispersion (config s)
      \<and> uni_thickness (uniforms s) = cfg_thickness (config s)
      \<and> cfg_dispersion (config s) = (case opt_dispersion cfg of None \<Rightarrow> 0.03 | Some d \<Rightarrow> d)
      \<and> cfg_thickness (config s) = (case opt_thickness cfg of None \<Rightarrow> 0.3 | Some t \<Rightarrow> t)"
    if ok: "constructor w cv cfg = Inr s"
  proof -
    have "cfg_dispersion (config s) = cfg_dispersion (merge_config (DEFAULT_CONFIG w) cfg)"
      "cfg_thickness (config s) = cfg_thickness (merge_config (DEFAULT_CONFIG w) cfg)"
      by (simp_all only: constructor_Inr(1) [OF ok])
    then have "cfg_dispersion (config s) = (case opt_dispersion cfg of None \<Rightarrow> 0.03 | Some d \<Rightarrow> d)"
      "cfg_thickness (config s) = (case opt_thickness cfg of None \<Rightarrow> 0.3 | Some t \<Rightarrow> t)"
      by (simp_all add: merge_config_fields DEFAULT_CONFIG_fields split: option.splits)
    then show ?thesis
      by (simp only: constructor_Inr(5,6) [OF ok] simp_thms)
  qed
  have b: "isl (constructor w cv (cfg\<lparr>opt_dispersion := od, opt_thickness := ot\<rparr>)) = isl (constructor w cv cfg)"
    by (simp add: constructor_isl validateConfig_def merge_config_fields)
  have c: "cfg_dispersion (config (setDispersion x s')) = max 0 (min 0.2 x)"
    "uni_dispersion (uniforms (setDispersion x s')) = max 0 (min 0.2 x)"
    "cfg_thickness (config (setThickness y s')) = max 0.1 (min 2 y)"
    "uni_thickness (uniforms (setThickness y s')) = max 0.1 (min 2 y)"
    by (simp_all add: setDispersion_def setThickness_def Let_def)
  show ?thesis
    using a b by (auto simp: c)
qed

theorem constructor_keeps_dispersion_and_thickness_witness:
  "\<not> isl (constructor example_browser (CanvasElement example_canvas)
        (no_options\<lparr>opt_dispersion := Some 5, opt_thickness := Some (- 3)\<rparr>))
   \<and> uni_dispersion (uniforms (projr (constructor example_browser (CanvasElement example_canvas)
        (no_options\<lparr>opt_dispersion := Some 5, opt_thickness := Some (- 3)\<rparr>)))) = 5
   \<and> uni_thickness (uniforms (projr (constructor example_browser (CanvasElement example_canvas)
        (no_options\<lparr>opt_dispersion := Some 5, opt_thickness := Some (- 3)\<rparr>)))) = - 3
   \<and> uni_dispersion (uniforms (setDispersion 5 default_instance)) = 1/5
   \<and> uni_thickness (uniforms (setThickness (- 3) default_instance)) = 1/10"
proof -
  have ok: "\<not> isl (constructor example_browser (CanvasElement example_canvas)
        (no_options\<lparr>opt_dispersion := Some 5, opt_thickness := Some (- 3)\<rparr>))"
    using constructor_keeps_dispersion_and_thickness [where w = example_browser
        and cv = "CanvasElement example_canvas" and cfg = no_options and od = "Some 5"
        and ot = "Some (- 3)"]
    by (simp add: constructor_default)
  then obtain s where s: "constructor example_browser (CanvasElement example_canvas)
        (no_options\<lparr>opt_dispersion := Some 5, opt_thickness := Some (- 3)\<rparr>) = Inr s"
    by (cases "constructor example_browser (CanvasElement example_canvas)
        (no_options\<lparr>opt_dispersion := Some 5, opt_thickness := Some (- 3)\<rparr>)") auto
  show ?thesis
    using ok constructor_keeps_dispersion_and_thickness [where w = example_browser
        and cv = "CanvasElement example_canvas"
        and cfg = "no_options\<lparr>opt_dispersion := Some 5, opt_thickness := Some (- 3)\<rparr>"
        and s = s and od = "Some 5" and ot = "Some (- 3)" and x = 5 and s' = default_instance
        and y = "- 3"]
    by (simp add: s)
qed

subsection \<open>Disposal\<close>

lemma stopAnimation_webglState: "webglState (stopAnimation s) = webglState s"
  by (simp add: stopAnimation_def cancelAnimationFrame_def Let_def split: option.splits)

lemma destroy_webglState: "webglState (destroy s) = None"
  by (simp add: destroy_def Let_def)

lemma stopAnimation_stopped:
  assumes "\<not> anim_enabled (cfg_animation (config s))" and "\<not> truthy_id (animationId s)"
  shows "stopAnimation s = s"
proof -
  have "(cfg_animation (config s))\<lparr>anim_enabled := False\<rparr> = cfg_animation (config s)"
    using assms(1) by simp
  then have "s\<lparr>config := (config s)\<lparr>cfg_animation := (cfg_animation (config s))\<lparr>anim_enabled := False\<rparr>\<rparr>\<rparr> = s"
    by simp
  then show ?thesis
    using assms(2) by (cases "animationId s") (simp_all add: stopAnimation_def Let_def)
qed

lemma destroy_disposed:
  assumes "disposed s"
  shows "destroy s = s"
proof -
  have a: "s\<lparr>isDestroyed := True\<rparr> = s"
    using assms by (simp add: disposed_def)
  have b: "stopAnimation s = s"
    using assms by (simp add: disposed_def stopAnimation_stopped)
  have c: "listeners s - {MouseMove, MouseLeave, WindowResize} = listeners s"
    using assms by (auto simp: disposed_def)
  have d: "cleanupContextLoss s \<Longrightarrow> listeners s - {ContextLost, ContextRestored} = listeners s"
    using assms by (auto simp: disposed_def)
  have e: "webglState s = None"
    using assms by (simp add: disposed_def)
  show ?thesis
    unfolding destroy_def a b Let_def
    by (simp add: c d e)
qed

lemma stopAnimation_fields:
  "\<not> anim_enabled (cfg_animation (config (stopAnimation s)))"
  "\<not> truthy_id (animationId (stopAnimation s))"
  "isDestroyed (stopAnimation s) = isDestroyed s"
  "listeners (stopAnimation s) = listeners s"
  "cleanupContextLoss (stopAnimation s) = cleanupContextLoss s"
  by (simp_all add: stopAnimation_def cancelAnimationFrame_def Let_def truthy_id_def split: option.splits)

lemma gl_fields:
  "config (gl cs s) = config s" "animationId (gl cs s) = animationId s"
  "isDestroyed (gl cs s) = isDestroyed s" "listeners (gl cs s) = listeners s"
  "cleanupContextLoss (gl cs s) = cleanupContextLoss s" "webglState (gl cs s) = webglState s"
  by (simp_all add: gl_def)

lemma destroy_is_disposed: "disposed (destroy s)"
  unfolding disposed_def destroy_def Let_def
  by (cases "webglState (stopAnimation (s\<lparr>isDestroyed := True\<rparr>))")
     (auto simp: stopAnimation_fields gl_fields)

lemma destroy_idem: "destroy (destroy s) = destroy s"
  by (rule destroy_disposed) (rule destroy_is_disposed)

text \<open>
  Claim C9: \<open>destroy\<close> has no statement that throws; a second call finds \<open>webglState\<close>
  cleared, makes no call on the WebGL context (so deletes no texture, buffer or program
  again) and leaves the instance as the first call left it.
\<close>

theorem destroy_twice:
  "destroy (destroy s) = destroy s
   \<and> glCalls (destroy (destroy s)) = glCalls (destroy s)
   \<and> webglState (destroy s) = None"
  by (simp add: destroy_idem destroy_webglState)

subsection \<open>Rendering and initialisation\<close>

lemma updateUniforms_fields:
  "time (updateUniforms s) = time s" "config (updateUniforms s) = config s"
  "rafPending (updateUniforms s) = rafPending s" "rafNext (updateUniforms s) = rafNext s"
  "animationId (updateUniforms s) = animationId s" "webglState (updateUniforms s) = webglState s"
  "isDestroyed (updateUniforms s) = isDestroyed s"
  by (simp_all add: updateUniforms_def gl_def Let_def split: option.splits)

lemma render_fields:
  "config (render s) = config s"
  "webglState (render s) = webglState s"
  "isDestroyed (render s) = isDestroyed s"
  "time (render s) =
     (if isDestroyed s \<or> webglState s = None then time s
      else time s + 0.016 * anim_speed (cfg_animation (config s)))"
  "rafPending (render s) =
     (if isDestroyed s \<or> webglState s = None \<or> \<not> anim_enabled (cfg_animation (config s))
      then rafPending s else insert (rafNext s) (rafPending s))"
  "animationId (render s) =
     (if isDestroyed s \<or> webglState s = None \<or> \<not> anim_enabled (cfg_animation (config s))
      then animationId s else Some (rafNext s))"
  by (simp_all add: render_def requestAnimationFrame_def gl_def updateUniforms_fields Let_def)

lemma render_rafNext:
  "rafNext (render s) =
     (if isDestroyed s \<or> webglState s = None \<or> \<not> anim_enabled (cfg_animation (config s))
      then rafNext s else rafNext s + 1)"
  by (simp add: render_def requestAnimationFrame_def gl_def updateUniforms_fields Let_def)

lemma setupCanvas_fields:
  "time (setupCanvas s) = time s" "config (setupCanvas s) = config s"
  "rafPending (setupCanvas s) = rafPending s" "rafNext (setupCanvas s) = rafNext s"
  "animationId (setupCanvas s) = animationId s" "webglState (setupCanvas s) = webglState s"
  "isDestroyed (setupCanvas s) = isDestroyed s"
  by (simp_all add: setupCanvas_def gl_def Let_def)

lemma setupEventListeners_fields:
  "time (setupEventListeners s) = time s" "config (setupEventListeners s) = config s"
  "rafPending (setupEventListeners s) = rafPending s" "rafNext (setupEventListeners s) = rafNext s"
  "animationId (setupEventListeners s) = animationId s"
  "webglState (setupEventListeners s) = webglState s"
  "isDestroyed (setupEventListeners s) = isDestroyed s"
  by (simp_all add: setupEventListeners_def Let_def)

text \<open>\<open>setupWebGL\<close> and \<open>init\<close> where every WebGL call succeeds.\<close>

lemma setupWebGL_example:
  "webglState s = None \<Longrightarrow> cfg_backgroundTexture (config s) = Url [] \<Longrightarrow>
   setupWebGL example_gl s =
     (None, s\<lparr>vertexBuffer := Some 2,
              glCalls := glCalls s @ [GlUseProgram 1, GlSetup ''bindBuffer'', GlSetup ''bufferData'',
                 GlSetup ''enableVertexAttribArray'', GlSetup ''vertexAttribPointer'',
                 GlBindTexture 3, GlSetup ''texImage2D'', GlSetup ''texParameteri'',
                 GlSetup ''texParameteri'', GlSetup ''texParameteri'', GlSetup ''texParameteri'',
                 GlViewport (canvas_width (canvas s)) (canvas_height (canvas s)),
                 GlSetup ''clearColor'', GlSetup ''enable'', GlSetup ''blendFunc''],
              webglState := Some \<lparr>ws_program = 1, ws_backgroundTexture = Some 3\<rparr>\<rparr>)"
  by (simp add: setupWebGL_def example_gl_def createQuadBuffer_def createDefaultTexture_def
        createTextureFromElement_def truthy_source_def gl_def Let_def)

lemma init_example:
  assumes "webglState s = None" and "cfg_backgroundTexture (config s) = Url []"
    and "anim_enabled (cfg_animation (config s))" and "\<not> isDestroyed s"
    and "animationId s = None"
  shows "time (init example_gl s) = time s + 0.016 * anim_speed (cfg_animation (config s))"
    and "rafPending (init example_gl s) = insert (rafNext s) (rafPending s)"
    and "webglState (init example_gl s) = Some \<lparr>ws_program = 1, ws_backgroundTexture = Some 3\<rparr>"
    and "config (init example_gl s) = config s"
    and "isDestroyed (init example_gl s) = isDestroyed s"
proof -
  have sup: "ge_supported example_gl"
    by (simp add: example_gl_def)
  note defs = init_def sup setupWebGL_example [OF assms(1,2)] startAnimation_def truthy_id_def
    setupCanvas_fields setupEventListeners_fields render_fields Let_def
  show "time (init example_gl s) = time s + 0.016 * anim_speed (cfg_animation (config s))"
    using assms by (simp add: defs)
  show "rafPending (init example_gl s) = insert (rafNext s) (rafPending s)"
    using assms by (simp add: defs)
  show "webglState (init example_gl s) = Some \<lparr>ws_program = 1, ws_backgroundTexture = Some 3\<rparr>"
    using assms by (simp add: defs)
  show "config (init example_gl s) = config s"
    using assms by (simp add: defs)
  show "isDestroyed (init example_gl s) = isDestroyed s"
    using assms by (simp add: defs)
qed

lemma default_instance_fields:
  "webglState default_instance = None" "cfg_backgroundTexture (config default_instance) = Url []"
  "cfg_animation (config default_instance) =
     \<lparr>anim_enabled = True, anim_speed = 1, anim_surfaceRipples = True\<rparr>"
  "\<not> isDestroyed default_instance" "animationId default_instance = None"
  "time default_instance = 0" "rafNext default_instance = 1" "rafPending default_instance = {}"
  by (simp_all add: default_instance_def DEFAULT_CONFIG_def)

lemma reversed_instance_fields:
  "webglState reversed_instance = None" "cfg_backgroundTexture (config reversed_instance) = Url []"
  "cfg_animation (config reversed_instance) =
     \<lparr>anim_enabled = True, anim_speed = - 1, anim_surfaceRipples = True\<rparr>"
  "\<not> isDestroyed reversed_instance" "animationId reversed_instance = None"
  "time reversed_instance = 0" "rafNext reversed_instance = 1" "rafPending reversed_instance = {}"
  by (simp_all add: reversed_instance_def default_instance_def DEFAULT_CONFIG_def)

subsection \<open>Replacing the background texture\<close>

lemma newTexture_failure_silent:
  assumes "fst (newTexture env texture) = Inl e"
  shows "snd (newTexture env texture) = []"
  using assms
  by (auto simp: newTexture_def loadImageTexture_def createTextureFromElement_def
        split: TextureSource.splits option.splits if_splits)

lemma newTexture_failure_iff:
  "(\<exists>e. fst (newTexture env texture) = Inl e) \<longleftrightarrow>
     ge_createTexture env = None \<or> (\<exists>url. texture = Url url \<and> \<not> ge_imageLoads env)"
  by (auto simp: newTexture_def loadImageTexture_def createTextureFromElement_def
        split: TextureSource.splits option.splits if_splits)

lemma gl_nil: "gl [] s = s"
  by (simp add: gl_def)

text \<open>
  Claim C6: when the image fails to load or the texture cannot be created
  (\<open>newTexture\<close> ends with an error \<open>e\<close>), \<open>setBackgroundTexture\<close> calls \<open>onError\<close> with
  \<open>e\<close>, its promise resolves, and nothing else changes: \<open>webglState\<close> (and the texture
  in it), the configuration and the calls made on the context are as before. The first
  conjunct is the same for a load that settles later, on whatever the instance is then.
\<close>

theorem setBackgroundTexture_failure_keeps_state:
  "setBackgroundTexture_settled (Inl e) texture s = (Resolved, s\<lparr>callbacks := callbacks s @ [OnError e]\<rparr>)
   \<and> (webglState s \<noteq> None \<and> fst (newTexture env texture) = Inl e \<longrightarrow>
        setBackgroundTexture env texture s = (Resolved, s\<lparr>callbacks := callbacks s @ [OnError e]\<rparr>)
        \<and> webglState (snd (setBackgroundTexture env texture s)) = webglState s
        \<and> config (snd (setBackgroundTexture env texture s)) = config s
        \<and> glCalls (snd (setBackgroundTexture env texture s)) = glCalls s)"
proof -
  have a: "setBackgroundTexture_settled (Inl e) texture s = (Resolved, s\<lparr>callbacks := callbacks s @ [OnError e]\<rparr>)"
    for s
    by (simp add: setBackgroundTexture_settled_def onError_def)
  have "setBackgroundTexture env texture s = (Resolved, s\<lparr>callbacks := callbacks s @ [OnError e]\<rparr>)"
    if "webglState s \<noteq> None" and f: "fst (newTexture env texture) = Inl e"
  proof -
    have "newTexture env texture = (Inl e, [])"
      using f newTexture_failure_silent [OF f] by (cases "newTexture env texture") simp
    then show ?thesis
      using that(1) by (auto simp: setBackgroundTexture_def a gl_nil)
  qed
  then show ?thesis
    using a by simp
qed

theorem setBackgroundTexture_failure_keeps_state_witness:
  "webglState (init example_gl default_instance) = Some \<lparr>ws_program = 1, ws_backgroundTexture = Some 3\<rparr>
   \<and> setBackgroundTexture (example_gl\<lparr>ge_imageLoads := False\<rparr>) (Url ''missing.png'')
        (init example_gl default_instance) =
      (Resolved, (init example_gl default_instance)
         \<lparr>callbacks := callbacks (init example_gl default_instance) @
            [OnError (PhysicsGlassError ''Failed to load image: missing.png'' TEXTURE_LOAD_FAILED)]\<rparr>)
   \<and> setBackgroundTexture (example_gl\<lparr>ge_createTexture := None\<rparr>) (Element 7)
        (init example_gl default_instance) =
      (Resolved, (init example_gl default_instance)
         \<lparr>callbacks := callbacks (init example_gl default_instance) @
            [OnError (PhysicsGlassError ''Failed to create texture'' TEXTURE_LOAD_FAILED)]\<rparr>)"
proof -
  have w: "webglState (init example_gl default_instance) =
      Some \<lparr>ws_program = 1, ws_backgroundTexture = Some 3\<rparr>"
    by (simp add: init_example default_instance_fields)
  have f1: "fst (newTexture (example_gl\<lparr>ge_imageLoads := False\<rparr>) (Url ''missing.png'')) =
      Inl (PhysicsGlassError ''Failed to load image: missing.png'' TEXTURE_LOAD_FAILED)"
    by (simp add: newTexture_def loadImageTexture_def)
  have f2: "fst (newTexture (example_gl\<lparr>ge_createTexture := None\<rparr>) (Element 7)) =
      Inl (PhysicsGlassError ''Failed to create texture'' TEXTURE_LOAD_FAILED)"
    by (simp add: newTexture_def createTextureFromElement_def)
  show ?thesis
    using setBackgroundTexture_failure_keeps_state [where s = "init example_gl default_instance"
        and env = "example_gl\<lparr>ge_imageLoads := False\<rparr>" and texture = "Url ''missing.png''"
        and e = "PhysicsGlassError ''Failed to load image: missing.png'' TEXTURE_LOAD_FAILED"]
      setBackgroundTexture_failure_keeps_state [where s = "init example_gl default_instance"
        and env = "example_gl\<lparr>ge_createTexture := None\<rparr>" and texture = "Element 7"
        and e = "PhysicsGlassError ''Failed to create texture'' TEXTURE_LOAD_FAILED"]
    by (simp add: w f1 f2)
qed

subsection \<open>Animation\<close>

lemma clock_simps:
  "clock s = clock s' \<longleftrightarrow>
     time s = time s' \<and> cfg_animation (config s) = cfg_animation (config s')
     \<and> rafPending s = rafPending s' \<and> animationId s = animationId s'
     \<and> rafNext s = rafNext s'"
  by (auto simp: clock_def)

lemma gl_clock: "clock (gl cs s) = clock s"
  by (simp add: clock_def gl_def)

lemma onError_clock: "clock (onError e s) = clock s"
  by (simp add: clock_def onError_def)

lemma setters_clock:
  "clock (setShape sh s) = clock s"
  "clock (setSize x s) = clock s"
  "clock (setRefractionIndex x s) = clock s"
  "clock (setDispersion x s) = clock s"
  "clock (setThickness x s) = clock s"
  "clock (setBackgroundPattern p s) = clock s"
  "clock (setMousePosition x y s) = clock s"
  "clock (handleMouseMove x y s) = clock s"
  "clock (handleMouseLeave s) = clock s"
  by (simp_all add: clock_def setShape_def setSize_def setRefractionIndex_def setDispersion_def
        setThickness_def setBackgroundPattern_def setMousePosition_def handleMouseMove_def
        handleMouseLeave_def Let_def)

lemma setMaterial_clock: "clock (setMaterial m s) = clock s"
  by (simp add: setMaterial_def Let_def clock_def setRefractionIndex_def setDispersion_def
        split: option.splits)

lemma enableMouseTracking_clock: "clock (enableMouseTracking b s) = clock s"
  by (simp add: enableMouseTracking_def Let_def clock_def setMousePosition_def)

lemma setupCanvas_clock: "clock (setupCanvas s) = clock s"
  by (simp add: clock_def setupCanvas_fields)

lemma settled_clock: "clock (snd (setBackgroundTexture_settled out t s)) = clock s"
  by (simp add: setBackgroundTexture_settled_def clock_def onError_def gl_def Let_def
        split: sum.splits option.splits)

lemma setBackgroundTexture_clock: "clock (snd (setBackgroundTexture env t s)) = clock s"
  by (simp add: setBackgroundTexture_def settled_clock gl_clock split: prod.splits)

lemma setupWebGL_clock: "clock (snd (setupWebGL env s)) = clock s"
  by (simp add: setupWebGL_def Let_def clock_def gl_def
        split: prod.splits sum.splits option.splits)

lemma setupWebGL_isDestroyed: "isDestroyed (snd (setupWebGL env s)) = isDestroyed s"
  by (simp add: setupWebGL_def Let_def gl_def split: prod.splits sum.splits option.splits)

lemma stopAnimation_clock:
  "time (stopAnimation s) = time s"
  "anim_speed (cfg_animation (config (stopAnimation s))) = anim_speed (cfg_animation (config s))"
  "\<not> anim_enabled (cfg_animation (config (stopAnimation s)))"
  "rafPending (stopAnimation s) \<subseteq> rafPending s"
  "rafNext (stopAnimation s) = rafNext s"
  by (auto simp: stopAnimation_def cancelAnimationFrame_def Let_def split: option.splits)

lemma destroy_clock:
  "time (destroy s) = time s"
  "anim_speed (cfg_animation (config (destroy s))) = anim_speed (cfg_animation (config s))"
  "\<not> anim_enabled (cfg_animation (config (destroy s)))"
  "rafPending (destroy s) \<subseteq> rafPending s"
proof -
  let ?s1 = "stopAnimation (s\<lparr>isDestroyed := True\<rparr>)"
  have d: "time (destroy s) = time ?s1" "config (destroy s) = config ?s1"
    "rafPending (destroy s) = rafPending ?s1"
    by (simp_all add: destroy_def Let_def gl_def split: option.splits)
  show "time (destroy s) = time s"
    by (simp add: d stopAnimation_clock)
  show "anim_speed (cfg_animation (config (destroy s))) = anim_speed (cfg_animation (config s))"
    by (simp add: d stopAnimation_clock)
  show "\<not> anim_enabled (cfg_animation (config (destroy s)))"
    by (simp add: d stopAnimation_clock)
  show "rafPending (destroy s) \<subseteq> rafPending s"
    using stopAnimation_clock(4) [of "s\<lparr>isDestroyed := True\<rparr>"] by (simp add: d)
qed

lemma startAnimation_clock:
  "anim_speed (cfg_animation (config (startAnimation s))) = anim_speed (cfg_animation (config s))"
  "0 \<le> anim_speed (cfg_animation (config s)) \<Longrightarrow> time s \<le> time (startAnimation s)"
  by (simp_all add: startAnimation_def Let_def render_fields)

lemma frame_clock:
  "config (frame fid s) = config s"
  "0 \<le> anim_speed (cfg_animation (config s)) \<Longrightarrow> time s \<le> time (frame fid s)"
  "fid \<notin> rafPending s \<Longrightarrow> frame fid s = s"
  by (simp_all add: frame_def render_fields)

lemma handleContextRestored_clock:
  "anim_speed (cfg_animation (config (handleContextRestored env s))) =
     anim_speed (cfg_animation (config s))"
  "0 \<le> anim_speed (cfg_animation (config s)) \<Longrightarrow> time s \<le> time (handleContextRestored env s)"
  "\<not> anim_enabled (cfg_animation (config s)) \<Longrightarrow> clock (handleContextRestored env s) = clock s"
proof -
  obtain r s1 where r: "setupWebGL env s = (r, s1)"
    by (cases "setupWebGL env s")
  have c: "clock s1 = clock s"
    using setupWebGL_clock [of env s] by (simp add: r)
  then have f: "time s1 = time s" "cfg_animation (config s1) = cfg_animation (config s)"
    by (simp_all add: clock_simps)
  show "anim_speed (cfg_animation (config (handleContextRestored env s))) =
     anim_speed (cfg_animation (config s))"
    by (cases r) (simp_all add: handleContextRestored_def r f startAnimation_clock)
  show "time s \<le> time (handleContextRestored env s)"
    if "0 \<le> anim_speed (cfg_animation (config s))"
    using that startAnimation_clock(2) [of s1]
    by (cases r) (simp_all add: handleContextRestored_def r f)
  show "clock (handleContextRestored env s) = clock s"
    if "\<not> anim_enabled (cfg_animation (config s))"
    using that by (cases r) (simp_all add: handleContextRestored_def r f c)
qed

lemma setAnimationSpeed_clock:
  "time (setAnimationSpeed x s) = time s"
  "anim_speed (cfg_animation (config (setAnimationSpeed x s))) = max 0 (min 5 x)"
  "anim_enabled (cfg_animation (config (setAnimationSpeed x s))) = anim_enabled (cfg_animation (config s))"
  "rafPending (setAnimationSpeed x s) = rafPending s"
  "animationId (setAnimationSpeed x s) = animationId s"
  "rafNext (setAnimationSpeed x s) = rafNext s"
  by (simp_all add: setAnimationSpeed_def)

lemmas inert_clock = setters_clock setMaterial_clock enableMouseTracking_clock setupCanvas_clock
  setBackgroundTexture_clock

lemmas inert_fields = inert_clock [unfolded clock_simps]

text \<open>
  As long as the speed multiplier is not negative, no event makes it negative and no
  event takes the time accumulator back.
\<close>

lemma apply_event_speed:
  assumes "0 \<le> anim_speed (cfg_animation (config s))"
  shows "0 \<le> anim_speed (cfg_animation (config (apply_event e s)))"
  using assms
  by (cases e)
     (simp_all add: inert_fields resize_def handleResize_def handleContextLoss_def
        stopAnimation_clock destroy_clock startAnimation_clock frame_clock
        handleContextRestored_clock setAnimationSpeed_clock)

lemma apply_event_time_mono:
  assumes "0 \<le> anim_speed (cfg_animation (config s))"
  shows "time s \<le> time (apply_event e s)"
  using assms
  by (cases e)
     (simp_all add: inert_fields resize_def handleResize_def handleContextLoss_def
        stopAnimation_clock destroy_clock startAnimation_clock frame_clock
        handleContextRestored_clock setAnimationSpeed_clock)

lemma run_time_mono:
  "0 \<le> anim_speed (cfg_animation (config s)) \<Longrightarrow> time s \<le> time (run es s)"
proof (induction es arbitrary: s)
  case Nil
  then show ?case by simp
next
  case (Cons e es)
  have "time s \<le> time (apply_event e s)"
    using Cons.prems by (rule apply_event_time_mono)
  also have "\<dots> \<le> time (run es (apply_event e s))"
    using Cons.prems by (intro Cons.IH apply_event_speed)
  finally show ?case by simp
qed

text \<open>Frames stay tracked: from construction on, a pending frame is the one \<open>animationId\<close> names.\<close>

lemma frames_tracked_idle:
  assumes "frames_tracked s" and "\<not> truthy_id (animationId s)"
  shows "rafPending s = {}"
  using assms by (cases "animationId s") (auto simp: frames_tracked_def truthy_id_def)

lemma render_frames_tracked:
  assumes "frames_tracked s" and "rafPending s = {}"
  shows "frames_tracked (render s)"
  using assms by (simp add: frames_tracked_def render_fields render_rafNext)

lemma startAnimation_frames_tracked:
  assumes "frames_tracked s"
  shows "frames_tracked (startAnimation s)"
proof (cases "truthy_id (animationId s)")
  case True
  then show ?thesis
    using assms by (simp add: startAnimation_def Let_def frames_tracked_def)
next
  case False
  let ?s1 = "s\<lparr>config := (config s)\<lparr>cfg_animation := (cfg_animation (config s))\<lparr>anim_enabled := True\<rparr>\<rparr>\<rparr>"
  have "frames_tracked ?s1" "rafPending ?s1 = {}"
    using assms frames_tracked_idle [OF assms False] by (simp_all add: frames_tracked_def)
  then have "frames_tracked (render ?s1)"
    by (rule render_frames_tracked)
  then show ?thesis
    using False by (simp add: startAnimation_def Let_def)
qed

lemma stopAnimation_pauses:
  assumes "frames_tracked s"
  shows "paused (stopAnimation s)"
proof (cases "animationId s")
  case None
  then show ?thesis
    using assms by (simp add: paused_def frames_tracked_def stopAnimation_def Let_def)
next
  case (Some i)
  then show ?thesis
    using assms
    by (cases "i = 0")
       (auto simp: paused_def frames_tracked_def stopAnimation_def cancelAnimationFrame_def
          truthy_id_def Let_def)
qed

lemma stopAnimation_frames_tracked:
  assumes "frames_tracked s"
  shows "frames_tracked (stopAnimation s)"
  using stopAnimation_pauses [OF assms] assms stopAnimation_clock(5) [of s]
  by (simp add: frames_tracked_def paused_def)

lemma destroy_frames_tracked:
  assumes "frames_tracked s"
  shows "frames_tracked (destroy s)"
proof -
  let ?s1 = "stopAnimation (s\<lparr>isDestroyed := True\<rparr>)"
  have "frames_tracked (s\<lparr>isDestroyed := True\<rparr>)"
    using assms by (simp add: frames_tracked_def)
  then have "frames_tracked ?s1"
    by (rule stopAnimation_frames_tracked)
  moreover have "rafPending (destroy s) = rafPending ?s1" "animationId (destroy s) = animationId ?s1"
    "rafNext (destroy s) = rafNext ?s1"
    by (simp_all add: destroy_def Let_def gl_def split: option.splits)
  ultimately show ?thesis
    by (simp add: frames_tracked_def)
qed

lemma frame_frames_tracked:
  assumes "frames_tracked s"
  shows "frames_tracked (frame fid s)"
proof (cases "fid \<in> rafPending s")
  case False
  then show ?thesis using assms by (simp add: frame_def)
next
  case True
  then have "rafPending s = {fid}"
    using assms by (cases "animationId s") (auto simp: frames_tracked_def)
  then have "frames_tracked (s\<lparr>rafPending := rafPending s - {fid}\<rparr>)"
    "rafPending (s\<lparr>rafPending := rafPending s - {fid}\<rparr>) = {}"
    using assms by (simp_all add: frames_tracked_def)
  then have "frames_tracked (render (s\<lparr>rafPending := rafPending s - {fid}\<rparr>))"
    by (rule render_frames_tracked)
  then show ?thesis
    using True by (simp add: frame_def)
qed

lemma setupWebGL_frames_tracked:
  assumes "frames_tracked s"
  shows "frames_tracked (snd (setupWebGL env s))"
  using assms setupWebGL_clock [of env s]
  by (simp add: frames_tracked_def clock_simps)

lemma handleContextRestored_frames_tracked:
  assumes "frames_tracked s"
  shows "frames_tracked (handleContextRestored env s)"
proof -
  obtain r s1 where r: "setupWebGL env s = (r, s1)"
    by (cases "setupWebGL env s")
  have "frames_tracked s1"
    using setupWebGL_frames_tracked [OF assms, of env] by (simp add: r)
  then show ?thesis
    by (cases r) (simp_all add: handleContextRestored_def r startAnimation_frames_tracked)
qed

lemma constructor_frames_tracked:
  assumes "constructor w cv cfg = Inr s"
  shows "frames_tracked s"
  using assms
  by (auto simp: constructor_def Let_def frames_tracked_def
        split: canvas_arg.splits option.splits sum.splits)

lemma init_frames_tracked:
  assumes "frames_tracked s"
  shows "frames_tracked (init env s)"
proof (cases "ge_supported env")
  case False
  then show ?thesis
    using assms by (simp add: init_def onError_def frames_tracked_def)
next
  case True
  obtain r s1 where r: "setupWebGL env s = (r, s1)"
    by (cases "setupWebGL env s")
  have s1: "frames_tracked s1"
    using setupWebGL_frames_tracked [OF assms, of env] by (simp add: r)
  show ?thesis
  proof (cases r)
    case (Some e)
    then show ?thesis
      using True s1 by (simp add: init_def r onError_def frames_tracked_def)
  next
    case None
    have "frames_tracked (setupEventListeners (setupCanvas s1))"
      using s1 by (simp add: frames_tracked_def setupCanvas_fields setupEventListeners_fields)
    then have "frames_tracked (if anim_enabled (cfg_animation (config (setupEventListeners (setupCanvas s1))))
         then startAnimation (setupEventListeners (setupCanvas s1))
         else setupEventListeners (setupCanvas s1))"
      by (simp add: startAnimation_frames_tracked)
    then show ?thesis
      using True None by (simp add: init_def r Let_def frames_tracked_def)
  qed
qed

lemma apply_event_frames_tracked:
  assumes "frames_tracked s"
  shows "frames_tracked (apply_event e s)"
proof (cases e)
  case StartAnimation
  then show ?thesis using assms by (simp add: startAnimation_frames_tracked)
next
  case StopAnimation
  then show ?thesis using assms by (simp add: stopAnimation_frames_tracked)
next
  case Destroy
  then show ?thesis using assms by (simp add: destroy_frames_tracked)
next
  case ContextWasLost
  then show ?thesis
    using assms by (simp add: handleContextLoss_def stopAnimation_frames_tracked)
next
  case (ContextWasRestored env)
  then show ?thesis using assms by (simp add: handleContextRestored_frames_tracked)
next
  case (Frame fid)
  then show ?thesis using assms by (simp add: frame_frames_tracked)
next
  case (SetAnimationSpeed x)
  then show ?thesis
    using assms by (simp add: frames_tracked_def setAnimationSpeed_clock)
qed (use assms in \<open>simp_all add: frames_tracked_def inert_fields resize_def handleResize_def\<close>)

lemma run_frames_tracked: "frames_tracked s \<Longrightarrow> frames_tracked (run es s)"
  by (induction es arbitrary: s) (simp_all add: apply_event_frames_tracked)

text \<open>
  While animation is stopped no frame is pending, and until \<open>startAnimation\<close> is called
  nothing schedules one or changes the time accumulator.
\<close>

lemma apply_event_paused:
  assumes "paused s" and "e \<noteq> StartAnimation"
  shows "paused (apply_event e s) \<and> time (apply_event e s) = time s"
proof -
  have sub: "rafPending s' \<subseteq> rafPending s \<Longrightarrow> rafPending s' = {}" for s'
    using assms(1) by (auto simp: paused_def)
  show ?thesis
  proof (cases e)
    case StartAnimation
    then show ?thesis using assms by simp
  next
    case StopAnimation
    then show ?thesis
      using sub [OF stopAnimation_clock(4)] by (simp add: paused_def stopAnimation_clock(1-3))
  next
    case Destroy
    then show ?thesis
      using sub [OF destroy_clock(4)] by (simp add: paused_def destroy_clock(1-3))
  next
    case ContextWasLost
    then show ?thesis
      using assms(1) sub [OF stopAnimation_clock(4)]
      by (simp add: paused_def handleContextLoss_def stopAnimation_clock(1-3))
  next
    case (ContextWasRestored env)
    have "clock (handleContextRestored env s) = clock s"
      using assms(1) by (simp add: paused_def handleContextRestored_clock)
    then show ?thesis
      using assms(1) ContextWasRestored by (simp add: paused_def clock_simps)
  next
    case (Frame fid)
    then show ?thesis
      using assms(1) by (simp add: paused_def frame_clock)
  next
    case (SetAnimationSpeed x)
    then show ?thesis
      using assms(1) by (simp add: paused_def setAnimationSpeed_clock)
  qed (use assms(1) in \<open>simp_all add: paused_def inert_fields resize_def handleResize_def\<close>)
qed

lemma run_paused:
  "paused s \<Longrightarrow> StartAnimation \<notin> set es \<Longrightarrow> paused (run es s) \<and> time (run es s) = time s"
proof (induction es arbitrary: s)
  case Nil
  then show ?case by simp
next
  case (Cons e es)
  then have "paused (apply_event e s) \<and> time (apply_event e s) = time s"
    by (intro apply_event_paused) auto
  then show ?case
    using Cons.IH [of "apply_event e s"] Cons.prems by simp
qed

lemma stopped_clock_frozen:
  assumes "frames_tracked s" and "StartAnimation \<notin> set es"
  shows "rafPending (run es (stopAnimation s)) = {}"
    and "time (run es (stopAnimation s)) = time s"
  using run_paused [OF stopAnimation_pauses [OF assms(1)] assms(2)]
  by (simp_all add: paused_def stopAnimation_clock)

text \<open>
  Claim C7: while animation runs the time accumulator never decreases, the speed
  multiplier being kept in \<open>[0, 5]\<close>. \<open>setAnimationSpeed\<close> clamps the multiplier, and the
  lemmas above hold for a multiplier that is not negative; but the constructor stores
  the speed of the configuration as it is. Constructed with
  \<open>animation: { enabled: true, speed: -1, surfaceRipples: true }\<close> and initialised, the
  instance is running (a frame is pending) and its time accumulator goes from 0 to
  -0.016 at the first render and to -0.032 at the next frame.
\<close>

theorem negative_speed_runs_time_backwards:
  "constructor example_browser (CanvasElement example_canvas) reversed_options = Inr reversed_instance
   \<and> time reversed_instance = 0
   \<and> anim_enabled (cfg_animation (config (init example_gl reversed_instance)))
   \<and> rafPending (init example_gl reversed_instance) = {1}
   \<and> time (init example_gl reversed_instance) = - 0.016
   \<and> time (frame 1 (init example_gl reversed_instance)) = - 0.032
   \<and> time (frame 1 (init example_gl reversed_instance)) < time (init example_gl reversed_instance)"
proof -
  have i: "time (init example_gl reversed_instance) = - 0.016"
    "rafPending (init example_gl reversed_instance) = {1}"
    "webglState (init example_gl reversed_instance) = Some \<lparr>ws_program = 1, ws_backgroundTexture = Some 3\<rparr>"
    "config (init example_gl reversed_instance) = config reversed_instance"
    "\<not> isDestroyed (init example_gl reversed_instance)"
    by (simp_all add: init_example reversed_instance_fields)
  have "time (frame 1 (init example_gl reversed_instance)) = - 0.032"
    by (simp add: frame_def render_fields i reversed_instance_fields)
  then show ?thesis
    by (simp add: constructor_reversed i reversed_instance_fields)
qed

end
